theory Spec2Isabelle
  imports Main "HOL-Library.Word" "HOL-Library.Char_ord" "HOL-Library.List_Lexorder"
begin

section \<open>Exceptions\<close>

text \<open>
  The exception classes of libpqxx that the modelled functions throw, and
  \<open>std::bad_alloc\<close>. Every one of them derives from \<open>std::exception\<close>.
\<close>

datatype error =
    Broken_connection string
  | Failure string
  | Usage_error string
  | Internal_error string
  | Conversion_error string
  | Unexpected_rows string
  | Bad_alloc

text \<open>
  What a callback written by the client program can throw: an object derived from
  \<open>std::exception\<close>, which \<open>catch (std::exception const &)\<close> catches, or an
  object of any other type, which that clause does not catch.
\<close>

datatype thrown = Std_exception error | Foreign_exception

fun what :: "error \<Rightarrow> string" where
  "what (Broken_connection m) = m"
| "what (Failure m) = m"
| "what (Usage_error m) = m"
| "what (Internal_error m) = m"
| "what (Conversion_error m) = m"
| "what (Unexpected_rows m) = m"
| "what Bad_alloc = ''std::bad_alloc''"

section \<open>Machine integers and their decimal rendering\<close>

type_synonym c_int = "32 word"
type_synonym size_t = "64 word"

fun decimal :: "nat \<Rightarrow> string" where
  "decimal n =
     (if n < 10 then [''0123456789'' ! n]
      else decimal (n div 10) @ [''0123456789'' ! (n mod 10)])"

declare decimal.simps [simp del]

text \<open>What \<open>std::format("{}", res)\<close> prints for an \<open>int\<close>.\<close>

definition format_int :: "c_int \<Rightarrow> string" where
  "format_int r =
     (if sint r < 0 then CHR ''-'' # decimal (nat (- sint r)) else decimal (nat (sint r)))"

section \<open>The transport (libpq) and the result representation\<close>

text \<open>
  libpq is an external collaborator. Its state is a record holding what its calls will
  answer: the connection status, the last error text, whether reading the socket works,
  the notifications that reading the socket will bring in, the notifications already
  buffered, the responses that \<open>PQexec\<close> and \<open>PQgetResult\<close> will hand out (a null
  pointer is \<open>None\<close>), the client encoding, and the answers of the copy calls.
\<close>

record pgnotify =
  relname :: string
  be_pid :: c_int
  extra :: string

text \<open>
  A server response. The result class is outside the modelled sources; of a response the
  model keeps the number of rows and the exception, if any, that the status check of
  the result raises.
\<close>

record pgresult =
  res_failure :: "error option"
  res_rows :: nat

record pgconn =
  status_ok :: bool
  error_message :: string
  consume_input_ok :: bool
  socket_input :: "pgnotify list"
  notify_queue :: "pgnotify list"
  pending_results :: "pgresult option list"
  client_encoding :: c_int
  copy_end_result :: c_int
  copy_data :: "c_int \<times> string"
  escape_identifier :: "string \<Rightarrow> string option"

section \<open>The client program's objects\<close>

text \<open>
  Callbacks run code of the client program. That code works on a state \<open>'w\<close> of its
  own. The connection holds pointers (numbers) to error handlers, receivers and
  transactions; the objects behind them live in the client program. Every call that
  leaves the library is recorded in a trace, in order.
\<close>

datatype event =
    Errorhandler_call nat string bool
  | Notice_handler_call string
  | Receiver_call nat string c_int
  | Handler_call string string c_int
  | PQexec_call string
  | PQgetResult_call
  | PQfinish_call

record notification =
  channel :: string
  payload :: string
  backend_pid :: c_int

type_synonym 'w notification_handler = "notification \<Rightarrow> 'w \<Rightarrow> thrown option \<times> 'w"

record 'w client =
  world :: 'w
  trace :: "event list"
  errorhandler_objs :: "nat \<Rightarrow> string \<Rightarrow> 'w \<Rightarrow> bool \<times> 'w"
  receiver_objs :: "nat \<Rightarrow> string \<Rightarrow> c_int \<Rightarrow> 'w \<Rightarrow> thrown option \<times> 'w"
  transaction_names :: "nat \<Rightarrow> string"
  format_throws :: "string \<Rightarrow> error option"
  vector_throws :: "nat \<Rightarrow> error option"

text \<open>
  \<open>format_throws s\<close> says whether building the text \<open>s\<close> with \<open>std::format\<close> throws
  (memory exhaustion), and \<open>vector_throws n\<close> whether allocating a vector of \<open>n\<close>
  pointers does. The model consults them where the source has a \<open>catch\<close> for it.
\<close>

record 'w notice_waiters =
  notice_handler :: "(string \<Rightarrow> 'w \<Rightarrow> 'w) option"
  errorhandlers :: "nat list"

record 'w connection =
  m_conn :: "pgconn option"
  m_trans :: "nat option"
  m_receivers :: "(string \<times> nat) list"
  m_notification_handlers :: "(string \<times> 'w notification_handler) list"
  m_notice_waiters :: "'w notice_waiters option"
  client :: "'w client"

definition log_event :: "event \<Rightarrow> 'w connection \<Rightarrow> 'w connection" where
  "log_event e c = c\<lparr>client := (client c)\<lparr>trace := trace (client c) @ [e]\<rparr>\<rparr>"

section \<open>Notice delivery\<close>

text \<open>
  The loop of \<open>process_notice_raw\<close> over the error handlers, given in the order in
  which the loop visits them. A handler returns \<open>true\<close> to let the next one run.
\<close>

fun call_errorhandlers :: "nat list \<Rightarrow> string \<Rightarrow> 'w client \<Rightarrow> 'w client" where
  "call_errorhandlers [] msg cl = cl"
| "call_errorhandlers (h # hs) msg cl =
     (let r = errorhandler_objs cl h msg (world cl);
          cl' = cl\<lparr>world := snd r, trace := trace cl @ [Errorhandler_call h msg (fst r)]\<rparr>
      in if fst r then call_errorhandlers hs msg cl' else cl')"

definition call_notice_handler :: "'w notice_waiters \<Rightarrow> string \<Rightarrow> 'w client \<Rightarrow> 'w client" where
  "call_notice_handler ws msg cl =
     (case notice_handler ws of
        None \<Rightarrow> cl
      | Some f \<Rightarrow> cl\<lparr>world := f msg (world cl), trace := trace cl @ [Notice_handler_call msg]\<rparr>)"

definition process_notice_raw ::
  "'w notice_waiters option \<Rightarrow> string \<Rightarrow> 'w client \<Rightarrow> 'w client" where
  "process_notice_raw waiters msg cl =
     (case waiters of
        None \<Rightarrow> cl
      | Some ws \<Rightarrow>
          if msg = [] then cl
          else call_notice_handler ws msg (call_errorhandlers (rev (errorhandlers ws)) msg cl))"

definition process_notice :: "string \<Rightarrow> 'w connection \<Rightarrow> 'w connection" where
  "process_notice msg c =
     (if msg \<noteq> [] then c\<lparr>client := process_notice_raw (m_notice_waiters c) msg (client c)\<rparr>
      else c)"

text \<open>Registering an error handler appends it to the hub's list.\<close>

definition register_errorhandler :: "nat \<Rightarrow> 'w connection \<Rightarrow> 'w connection" where
  "register_errorhandler handler c =
     c\<lparr>m_notice_waiters :=
         map_option (\<lambda>ws. ws\<lparr>errorhandlers := errorhandlers ws @ [handler]\<rparr>)
           (m_notice_waiters c)\<rparr>"

section \<open>Calls into the transport\<close>

text \<open>Each libpq call answers a null connection pointer as libpq documents it.\<close>

definition is_open :: "'w connection \<Rightarrow> bool" where
  "is_open c = (case m_conn c of None \<Rightarrow> False | Some pg \<Rightarrow> status_ok pg)"

definition err_msg :: "'w connection \<Rightarrow> string" where
  "err_msg c =
     (case m_conn c of None \<Rightarrow> ''No connection to database'' | Some pg \<Rightarrow> error_message pg)"

definition PQgetResult :: "'w connection \<Rightarrow> pgresult option \<times> 'w connection" where
  "PQgetResult c =
     (case m_conn c of
        None \<Rightarrow> (None, log_event PQgetResult_call c)
      | Some pg \<Rightarrow>
          (case pending_results pg of
             [] \<Rightarrow> (None, log_event PQgetResult_call c)
           | r # rs \<Rightarrow>
               (r, log_event PQgetResult_call (c\<lparr>m_conn := Some (pg\<lparr>pending_results := rs\<rparr>)\<rparr>))))"

definition PQexec :: "string \<Rightarrow> 'w connection \<Rightarrow> pgresult option \<times> 'w connection" where
  "PQexec query c =
     (case m_conn c of
        None \<Rightarrow> (None, log_event (PQexec_call query) c)
      | Some pg \<Rightarrow>
          (case pending_results pg of
             [] \<Rightarrow> (None, log_event (PQexec_call query) c)
           | r # rs \<Rightarrow>
               (r, log_event (PQexec_call query)
                     (c\<lparr>m_conn := Some (pg\<lparr>pending_results := rs\<rparr>)\<rparr>))))"

definition PQputCopyEnd :: "'w connection \<Rightarrow> c_int" where
  "PQputCopyEnd c = (case m_conn c of None \<Rightarrow> - 1 | Some pg \<Rightarrow> copy_end_result pg)"

definition PQgetCopyData :: "'w connection \<Rightarrow> c_int \<times> string" where
  "PQgetCopyData c = (case m_conn c of None \<Rightarrow> (- 2, []) | Some pg \<Rightarrow> copy_data pg)"

definition PQclientEncoding :: "'w connection \<Rightarrow> c_int" where
  "PQclientEncoding c = (case m_conn c of None \<Rightarrow> - 1 | Some pg \<Rightarrow> client_encoding pg)"

definition encoding_id :: "'w connection \<Rightarrow> error + c_int" where
  "encoding_id c =
     (let enc = PQclientEncoding c in
      if enc = - 1 then
        (if is_open c then Inl (Failure ''Could not obtain client encoding.'')
         else Inl (Broken_connection ''Lost connection to the database server.''))
      else Inr enc)"

text \<open>
  \<open>make_result\<close> wraps a response. \<open>enc_group\<close> is \<open>encoding_id\<close> followed by a
  table lookup that is outside the modelled sources; the status check of the result
  raises the failure the response carries.
\<close>

definition make_result :: "pgresult option \<Rightarrow> 'w connection \<Rightarrow> error + pgresult" where
  "make_result pgr c =
     (case pgr of
        None \<Rightarrow>
          if is_open c then Inl (Failure (err_msg c))
          else Inl (Broken_connection ''Lost connection to the database server.'')
      | Some r \<Rightarrow>
          (case encoding_id c of
             Inl e \<Rightarrow> Inl e
           | Inr enc \<Rightarrow> (case res_failure r of Some e \<Rightarrow> Inl e | None \<Rightarrow> Inr r)))"

section \<open>Copy streaming\<close>

definition end_copy_write :: "'w connection \<Rightarrow> error option \<times> 'w connection" where
  "end_copy_write c =
     (let res = PQputCopyEnd c in
      if res = - 1 then (Some (Failure (''Write to table failed: '' @ err_msg c)), c)
      else if res = 0 then (Some (Internal_error ''table write is inexplicably asynchronous''), c)
      else if res = 1 then
        (let (pgr, c1) = PQgetResult c in
         case make_result pgr c1 of Inl e \<Rightarrow> (Some e, c1) | Inr r \<Rightarrow> (None, c1))
      else
        (Some (Internal_error (''unexpected result '' @ format_int res @ '' from PQputCopyEnd()'')),
         c))"

text \<open>
  \<open>read_copy_line\<close> returns the buffer (a null pointer is \<open>None\<close>) and the length of
  the line. The length is \<open>static_cast<std::size_t>(line_len) - 1\<close>: the \<open>int\<close> is
  sign-extended to 64 bits and the subtraction wraps.
\<close>

definition read_copy_line ::
  "'w connection \<Rightarrow> (error + (string option \<times> size_t)) \<times> 'w connection" where
  "read_copy_line c =
     (let (line_len, buf) = PQgetCopyData c in
      if line_len = - 2 then
        (Inl (Failure (''Reading of table data failed: '' @ err_msg c)), c)
      else if line_len = - 1 then
        (let (pgr, c1) = PQgetResult c in
         case make_result pgr c1 of Inl e \<Rightarrow> (Inl e, c1) | Inr r \<Rightarrow> (Inr (None, 0), c1))
      else if line_len = 0 then
        (Inl (Internal_error ''table read inexplicably went asynchronous''), c)
      else (Inr (Some buf, scast line_len - 1), c))"

section \<open>Composite values\<close>

text \<open>
  A field of a composite value, as far as \<open>composite_size_buffer\<close> and
  \<open>composite_into_buf\<close> look at it: the buffer size that \<open>size_buffer\<close> reports
  for the field, and the bytes that \<open>write_composite_field\<close> writes for it. Both
  functions are outside the modelled sources, and their answers are parameters here.
\<close>

record composite_field =
  size_buffer :: size_t
  written :: string

text \<open>
  \<open>sizeof(empty_composite_str)\<close> is 3. The arithmetic is that of \<open>std::size_t\<close>:
  it wraps around.
\<close>

definition composite_size_buffer :: "composite_field list \<Rightarrow> size_t" where
  "composite_size_buffer fs =
     (if fs = [] then 3
      else 1 + 3 * of_nat (length fs) + (\<Sum>f\<leftarrow>fs. 2 * size_buffer f - 2) + 1)"

text \<open>
  \<open>composite_into_buf\<close> gets the room between \<open>begin\<close> and \<open>end\<close> and gives the
  bytes it writes. With more than one field, the closing parenthesis overwrites the last
  byte written by the fields.
\<close>

definition composite_into_buf :: "size_t \<Rightarrow> composite_field list \<Rightarrow> error + string" where
  "composite_into_buf space fs =
     (if space < composite_size_buffer fs then
        Inl (Conversion_error ''Buffer space may not be enough to represent composite value.'')
      else if fs = [] then Inr [CHR ''('', CHR '')'', CHR 0x00]
      else
        (let text = CHR ''('' # concat (map written fs);
             text' = (if 1 < length fs then butlast text else text)
         in Inr (text' @ [CHR '')'', CHR 0x00])))"

section \<open>Guest registration\<close>

text \<open>
  Modelled from the spec: \<open>describe_object\<close> is declared in util.hxx and defined
  outside the modelled sources. It describes an object by its class name and its
  optional name, an empty name meaning that none was given.
\<close>

definition describe_object :: "string \<Rightarrow> string \<Rightarrow> string" where
  "describe_object class_name name =
     (if name = [] then class_name else class_name @ '' '' @ [CHR 0x27] @ name @ [CHR 0x27])"

type_synonym guest_check =
  "nat option \<Rightarrow> string \<Rightarrow> string \<Rightarrow> nat option \<Rightarrow> string \<Rightarrow> string \<Rightarrow> error option"

text \<open>
  Modelled from the spec: \<open>check_unique_register\<close> is declared in util.hxx and
  defined outside the modelled sources. It fails with a usage error that describes the
  old and the new guest when the slot holds a non-null guest that is not the new one.
\<close>

definition check_unique_register :: guest_check where
  "check_unique_register old_guest old_class old_name new_guest new_class new_name =
     (if old_guest \<noteq> None \<and> old_guest \<noteq> new_guest then
        Some (Usage_error
          (''Started new '' @ describe_object new_class new_name @ '' while '' @
           describe_object old_class old_name @ '' was still active.''))
      else None)"

text \<open>
  Modelled from the spec: \<open>check_unique_unregister\<close> is declared in util.hxx and
  defined outside the modelled sources. It fails when the slot's occupant is not the
  guest being removed.
\<close>

definition check_unique_unregister :: guest_check where
  "check_unique_unregister old_guest old_class old_name new_guest new_class new_name =
     (if new_guest \<noteq> old_guest then
        Some (Usage_error
          (''Closed '' @ describe_object new_class new_name @ ''; expected to close '' @
           describe_object old_class old_name))
      else None)"

definition get_name :: "'w connection \<Rightarrow> nat option \<Rightarrow> string" where
  "get_name c t = (case t of None \<Rightarrow> [] | Some p \<Rightarrow> transaction_names (client c) p)"

text \<open>
  \<open>register_transaction\<close> and \<open>unregister_transaction\<close>, first with the check as a
  parameter, then with the checks above.
\<close>

definition register_transaction_checked ::
  "guest_check \<Rightarrow> nat option \<Rightarrow> 'w connection \<Rightarrow> error option \<times> 'w connection" where
  "register_transaction_checked chk t c =
     (case chk (m_trans c) ''transaction'' (get_name c (m_trans c))
             t ''transaction'' (get_name c t) of
        Some e \<Rightarrow> (Some e, c)
      | None \<Rightarrow> (None, c\<lparr>m_trans := t\<rparr>))"

definition unregister_transaction_checked ::
  "guest_check \<Rightarrow> nat option \<Rightarrow> 'w connection \<Rightarrow> 'w connection" where
  "unregister_transaction_checked chk t c =
     (let c1 =
        (case chk (m_trans c) ''transaction'' (get_name c (m_trans c))
                t ''transaction'' (get_name c t) of
           None \<Rightarrow> c
         | Some e \<Rightarrow> process_notice (what e) c)
      in c1\<lparr>m_trans := None\<rparr>)"

definition register_transaction ::
  "nat option \<Rightarrow> 'w connection \<Rightarrow> error option \<times> 'w connection" where
  "register_transaction = register_transaction_checked check_unique_register"

definition unregister_transaction :: "nat option \<Rightarrow> 'w connection \<Rightarrow> 'w connection" where
  "unregister_transaction = unregister_transaction_checked check_unique_unregister"

section \<open>Closing\<close>

definition unregister_errorhandler :: "nat \<Rightarrow> 'w connection \<Rightarrow> 'w connection" where
  "unregister_errorhandler handler c =
     c\<lparr>m_notice_waiters :=
         map_option (\<lambda>ws. ws\<lparr>errorhandlers := removeAll handler (errorhandlers ws)\<rparr>)
           (m_notice_waiters c)\<rparr>"

definition PQfinish :: "'w connection \<Rightarrow> 'w connection" where
  "PQfinish c = log_event PQfinish_call c"

text \<open>
  The body of the \<open>try\<close> block of \<open>close\<close>. An exception leaves with the state
  reached so far. The unregistering of an error handler is outside the modelled sources;
  as the comment in \<open>unregister_errorhandler\<close> says, the handler takes itself off the
  connection's list.
\<close>

definition close_try :: "'w connection \<Rightarrow> error option \<times> 'w connection" where
  "close_try c =
     (case (if m_trans c \<noteq> None then
              (let msg = ''Closing connection while '' @
                         describe_object ''transaction'' (get_name c (m_trans c)) @
                         '' is still open.'' @ [CHR 0x0A]
               in case format_throws (client c) msg of
                    Some e \<Rightarrow> Inl e
                  | None \<Rightarrow> Inr (process_notice msg c))
            else Inr c) of
        Inl e \<Rightarrow> (Some e, c)
      | Inr c1 \<Rightarrow>
          (let c2 = (if m_receivers c1 \<noteq> [] then
                       (process_notice
                          (''Closing connection with outstanding receivers.'' @ [CHR 0x0A]) c1)
                       \<lparr>m_receivers := []\<rparr>
                     else c1)
           in case m_notice_waiters c2 of
                None \<Rightarrow> (None, (PQfinish c2)\<lparr>m_conn := None\<rparr>)
              | Some ws \<Rightarrow>
                  (case vector_throws (client c2) (length (errorhandlers ws)) of
                     Some e \<Rightarrow> (Some e, c2)
                   | None \<Rightarrow>
                       (None,
                        (PQfinish (fold unregister_errorhandler (rev (errorhandlers ws)) c2))
                        \<lparr>m_conn := None\<rparr>))))"

definition close :: "'w connection \<Rightarrow> error option \<times> 'w connection" where
  "close c =
     (if m_conn c = None then (None, c)
      else
        (case close_try c of
           (None, c1) \<Rightarrow> (None, c1)
         | (Some e, c1) \<Rightarrow> (Some e, c1\<lparr>m_conn := None\<rparr>)))"

section \<open>Notifications\<close>

definition consume_input :: "'w connection \<Rightarrow> bool \<times> 'w connection" where
  "consume_input c =
     (case m_conn c of
        None \<Rightarrow> (False, c)
      | Some pg \<Rightarrow>
          if consume_input_ok pg then
            (True,
             c\<lparr>m_conn := Some (pg\<lparr>notify_queue := notify_queue pg @ socket_input pg,
                                 socket_input := []\<rparr>)\<rparr>)
          else (False, c))"

definition get_notif :: "'w connection \<Rightarrow> pgnotify option \<times> 'w connection" where
  "get_notif c =
     (case m_conn c of
        None \<Rightarrow> (None, c)
      | Some pg \<Rightarrow>
          (case notify_queue pg of
             [] \<Rightarrow> (None, c)
           | N # rest \<Rightarrow> (Some N, c\<lparr>m_conn := Some (pg\<lparr>notify_queue := rest\<rparr>)\<rparr>)))"

definition equal_range :: "string \<Rightarrow> (string \<times> nat) list \<Rightarrow> (string \<times> nat) list" where
  "equal_range chan rs = filter (\<lambda>i. fst i = chan) rs"

text \<open>The handler of \<open>catch (std::exception const &e)\<close> around a receiver's call.\<close>

definition report_receiver_exception ::
  "string \<Rightarrow> error \<Rightarrow> 'w connection \<Rightarrow> 'w connection" where
  "report_receiver_exception chan e c =
     (let msg = ''Exception in notification receiver '' @ [CHR 0x27] @ chan @ [CHR 0x27] @
                '': '' @ what e @ [CHR 0x0A]
      in case format_throws (client c) msg of
           None \<Rightarrow> process_notice msg c
         | Some Bad_alloc \<Rightarrow>
             process_notice
               (''Exception in notification receiver, and also ran out of memory'' @ [CHR 0x0A]) c
         | Some _ \<Rightarrow>
             process_notice
               (''Exception in notification receiver (compounded by other error)'' @ [CHR 0x0A]) c)"

fun call_receivers ::
  "(string \<times> nat) list \<Rightarrow> pgnotify \<Rightarrow> 'w connection \<Rightarrow> thrown option \<times> 'w connection" where
  "call_receivers [] N c = (None, c)"
| "call_receivers (i # rest) N c =
     (let r = receiver_objs (client c) (snd i) (extra N) (be_pid N) (world (client c));
          c1 = log_event (Receiver_call (snd i) (extra N) (be_pid N))
                 (c\<lparr>client := (client c)\<lparr>world := snd r\<rparr>\<rparr>)
      in case fst r of
           None \<Rightarrow> call_receivers rest N c1
         | Some (Std_exception e) \<Rightarrow>
             call_receivers rest N (report_receiver_exception (fst i) e c1)
         | Some Foreign_exception \<Rightarrow> (Some Foreign_exception, c1))"

definition call_handler ::
  "pgnotify \<Rightarrow> 'w connection \<Rightarrow> thrown option \<times> 'w connection" where
  "call_handler N c =
     (case map_of (m_notification_handlers c) (relname N) of
        None \<Rightarrow> (None, c)
      | Some h \<Rightarrow>
          (let r = h \<lparr>channel = relname N, payload = extra N, backend_pid = be_pid N\<rparr>
                     (world (client c))
           in (fst r,
               log_event (Handler_call (relname N) (extra N) (be_pid N))
                 (c\<lparr>client := (client c)\<lparr>world := snd r\<rparr>\<rparr>))))"

text \<open>The body of the loop of \<open>get_notifs\<close> for one notification.\<close>

definition deliver :: "pgnotify \<Rightarrow> 'w connection \<Rightarrow> thrown option \<times> 'w connection" where
  "deliver N c =
     (case call_receivers (equal_range (relname N) (m_receivers c)) N c of
        (Some x, c1) \<Rightarrow> (Some x, c1)
      | (None, c1) \<Rightarrow> call_handler N c1)"

definition queue_length :: "'w connection \<Rightarrow> nat" where
  "queue_length c = (case m_conn c of None \<Rightarrow> 0 | Some pg \<Rightarrow> length (notify_queue pg))"

function notif_loop :: "int \<Rightarrow> 'w connection \<Rightarrow> (thrown + int) \<times> 'w connection" where
  "notif_loop notifs c =
     (case get_notif c of
        (None, c1) \<Rightarrow> (Inr notifs, c1)
      | (Some N, c1) \<Rightarrow>
          (case deliver N c1 of
             (Some x, c2) \<Rightarrow> (Inl x, c2)
           | (None, c2) \<Rightarrow> notif_loop (notifs + 1) c2))"
  by pat_completeness auto

termination
proof (relation "measure (\<lambda>(notifs, c). queue_length c)")
  show "wf (measure (\<lambda>(notifs, c). queue_length c))" by simp
next
  fix notifs :: int and c c1 c2 :: "'w connection" and x N y
  assume pop: "(x, c1) = get_notif c" "x = Some N"
    and del: "(y, c2) = deliver N c1" "y = None"
  have notice: "m_conn (process_notice msg d) = m_conn d" for msg and d :: "'w connection"
    by (simp add: process_notice_def)
  have report: "m_conn (report_receiver_exception ch e d) = m_conn d"
    for ch e and d :: "'w connection"
    by (simp add: report_receiver_exception_def Let_def notice split: option.splits error.splits)
  have receivers: "m_conn (snd (call_receivers hit M d)) = m_conn d"
    for hit M and d :: "'w connection"
    by (induction hit arbitrary: d)
       (simp_all add: Let_def log_event_def report split: option.splits thrown.splits)
  have handler: "m_conn (snd (call_handler M d)) = m_conn d" for M and d :: "'w connection"
    by (simp add: call_handler_def Let_def log_event_def split: option.splits)
  have "m_conn (snd (deliver N c1)) = m_conn c1"
    using receivers [of "equal_range (relname N) (m_receivers c1)" N c1]
    by (auto simp: deliver_def handler split: prod.splits option.splits)
  then have same: "queue_length c2 = queue_length c1"
    using del(1) by (simp add: queue_length_def split: prod.splits) (metis snd_conv)
  have "queue_length c1 < queue_length c"
    using pop by (auto simp: get_notif_def queue_length_def split: option.splits list.splits)
  then show "((notifs + 1, c2), (notifs, c)) \<in> measure (\<lambda>(notifs, c). queue_length c)"
    using same by simp
qed

declare notif_loop.simps [simp del]

definition get_notifs :: "'w connection \<Rightarrow> (thrown + int) \<times> 'w connection" where
  "get_notifs c =
     (case consume_input c of
        (False, c1) \<Rightarrow> (Inl (Std_exception (Broken_connection ''Connection lost.'')), c1)
      | (True, c1) \<Rightarrow> if m_trans c1 \<noteq> None then (Inr 0, c1) else notif_loop 0 c1)"

section \<open>Commands and listening\<close>

definition exec :: "string \<Rightarrow> 'w connection \<Rightarrow> (thrown + pgresult) \<times> 'w connection" where
  "exec query c =
     (let (pgr, c1) = PQexec query c in
      case make_result pgr c1 of
        Inl e \<Rightarrow> (Inl (Std_exception e), c1)
      | Inr res \<Rightarrow>
          (case get_notifs c1 of
             (Inl x, c2) \<Rightarrow> (Inl x, c2)
           | (Inr n, c2) \<Rightarrow> (Inr res, c2)))"

definition quote_name :: "string \<Rightarrow> 'w connection \<Rightarrow> error + string" where
  "quote_name identifier c =
     (case (case m_conn c of None \<Rightarrow> None | Some pg \<Rightarrow> escape_identifier pg identifier) of
        None \<Rightarrow> Inl (Failure (err_msg c))
      | Some buf \<Rightarrow> Inr buf)"

text \<open>
  Modelled from the spec: \<open>no_rows\<close> is a member of the result class, outside the
  modelled sources. The response must have zero rows.
\<close>

definition no_rows :: "pgresult \<Rightarrow> error option" where
  "no_rows r =
     (if res_rows r = 0 then None
      else Some (Unexpected_rows ''Expected no rows from query.''))"

text \<open>
  \<open>exec(std::format("<command> {}", quote_name(channel)), loc).no_rows(loc)\<close>, as
  \<open>listen\<close> calls it for \<open>LISTEN\<close> and \<open>UNLISTEN\<close>.
\<close>

definition exec_on_channel ::
  "string \<Rightarrow> string \<Rightarrow> 'w connection \<Rightarrow> thrown option \<times> 'w connection" where
  "exec_on_channel command chan c =
     (case quote_name chan c of
        Inl e \<Rightarrow> (Some (Std_exception e), c)
      | Inr quoted \<Rightarrow>
          (case exec (command @ '' '' @ quoted) c of
             (Inl x, c1) \<Rightarrow> (Some x, c1)
           | (Inr res, c1) \<Rightarrow> (map_option Std_exception (no_rows res), c1)))"

text \<open>
  \<open>m_notification_handlers\<close> is a \<open>std::map\<close>: its entries are kept in ascending
  order of their keys. A position in it is an index, and \<open>end()\<close> is the length.
\<close>

definition lower_bound :: "string \<Rightarrow> (string \<times> 'a) list \<Rightarrow> nat" where
  "lower_bound k hs = length (takeWhile (\<lambda>e. fst e < k) hs)"

definition listen ::
  "string \<Rightarrow> 'w notification_handler option \<Rightarrow> 'w connection \<Rightarrow>
     thrown option \<times> 'w connection" where
  "listen chan handler c =
     (if m_trans c \<noteq> None then
        (Some (Std_exception (Usage_error
           (''Attempting to listen for notifications on '' @ [CHR 0x27] @ chan @ [CHR 0x27] @
            '' while transaction is active.''))), c)
      else
        (let pos = lower_bound chan (m_notification_handlers c);
             handlers_end = length (m_notification_handlers c)
         in case handler of
              Some h \<Rightarrow>
                if pos \<noteq> handlers_end \<and> fst (m_notification_handlers c ! pos) = chan then
                  (None, c\<lparr>m_notification_handlers :=
                              (m_notification_handlers c)[pos := (chan, h)]\<rparr>)
                else
                  (case exec_on_channel ''LISTEN'' chan c of
                     (Some x, c1) \<Rightarrow> (Some x, c1)
                   | (None, c1) \<Rightarrow>
                       (None, c1\<lparr>m_notification_handlers :=
                                    take pos (m_notification_handlers c1) @ [(chan, h)] @
                                    drop pos (m_notification_handlers c1)\<rparr>))
            | None \<Rightarrow>
                if pos \<noteq> handlers_end then
                  (case exec_on_channel ''UNLISTEN'' chan c of
                     (Some x, c1) \<Rightarrow> (Some x, c1)
                   | (None, c1) \<Rightarrow>
                       (None, c1\<lparr>m_notification_handlers :=
                                    take pos (m_notification_handlers c1) @
                                    drop (Suc pos) (m_notification_handlers c1)\<rparr>))
                else (None, c)))"

section \<open>Sample connections\<close>

text \<open>
  A healthy transport with nothing pending, a client program whose callbacks do nothing,
  and an open connection between them. The theorems below are evaluated on variations
  of these.
\<close>

definition idle_pgconn :: pgconn where
  "idle_pgconn =
     \<lparr>status_ok = True, error_message = ''no error'', consume_input_ok = True,
      socket_input = [], notify_queue = [], pending_results = [],
      client_encoding = 6, copy_end_result = 1, copy_data = (- 1, []),
      escape_identifier = (\<lambda>s. Some ([CHR 0x22] @ s @ [CHR 0x22]))\<rparr>"

definition quiet_client :: "nat client" where
  "quiet_client =
     \<lparr>world = 0, trace = [],
      errorhandler_objs = (\<lambda>h msg w. (True, w)),
      receiver_objs = (\<lambda>r p pid w. (None, w)),
      transaction_names = (\<lambda>t. []),
      format_throws = (\<lambda>s. None),
      vector_throws = (\<lambda>n. None)\<rparr>"

definition idle_connection :: "nat connection" where
  "idle_connection =
     \<lparr>m_conn = Some idle_pgconn, m_trans = None, m_receivers = [],
      m_notification_handlers = [],
      m_notice_waiters = Some \<lparr>notice_handler = None, errorhandlers = []\<rparr>,
      client = quiet_client\<rparr>"

text \<open>
  Transports in a copy: the return code of the end-of-copy call or of the copy-read
  call (with its buffer), the last error text, and the results still to be fetched.
\<close>

definition copy_end_transport :: "c_int \<Rightarrow> string \<Rightarrow> pgresult option list \<Rightarrow> pgconn" where
  "copy_end_transport r msg rs =
     idle_pgconn\<lparr>copy_end_result := r, error_message := msg, pending_results := rs\<rparr>"

definition copy_end_answers :: "c_int \<Rightarrow> string \<Rightarrow> pgresult option list \<Rightarrow> nat connection" where
  "copy_end_answers r msg rs = idle_connection\<lparr>m_conn := Some (copy_end_transport r msg rs)\<rparr>"

definition copy_data_transport ::
  "c_int \<Rightarrow> string \<Rightarrow> string \<Rightarrow> pgresult option list \<Rightarrow> pgconn" where
  "copy_data_transport n buf msg rs =
     idle_pgconn\<lparr>copy_data := (n, buf), error_message := msg, pending_results := rs\<rparr>"

definition copy_data_answers ::
  "c_int \<Rightarrow> string \<Rightarrow> string \<Rightarrow> pgresult option list \<Rightarrow> nat connection" where
  "copy_data_answers n buf msg rs =
     idle_connection\<lparr>m_conn := Some (copy_data_transport n buf msg rs)\<rparr>"

definition counting_handler :: "nat notification_handler" where
  "counting_handler n w = (None, Suc w)"

text \<open>An open connection whose transport will answer two commands, each with no rows.\<close>

definition answering_connection :: "nat connection" where
  "answering_connection =
     idle_connection
       \<lparr>m_conn := Some (idle_pgconn
          \<lparr>pending_results := [Some \<lparr>res_failure = None, res_rows = 0\<rparr>,
                               Some \<lparr>res_failure = None, res_rows = 0\<rparr>]\<rparr>)\<rparr>"

definition updates_notification :: pgnotify where
  "updates_notification = \<lparr>relname = ''updates'', be_pid = 77, extra = ''42''\<rparr>"

text \<open>
  A connection with the notification \<open>42\<close> on channel \<open>updates\<close> buffered, the
  receivers 1 and 2 registered for that channel and receiver 3 for another one, a handler
  installed for \<open>updates\<close>, and a notice callback. Receiver 1 throws on every call;
  every callback counts its calls in the client's state.
\<close>

definition watching_connection :: "nat connection" where
  "watching_connection =
     idle_connection
       \<lparr>m_conn := Some (idle_pgconn\<lparr>notify_queue := [updates_notification]\<rparr>),
        m_receivers := [(''other'', 3), (''updates'', 1), (''updates'', 2)],
        m_notification_handlers := [(''updates'', \<lambda>n w. (None, Suc w))],
        m_notice_waiters := Some \<lparr>notice_handler = Some (\<lambda>m w. Suc w), errorhandlers = []\<rparr>,
        client := quiet_client
          \<lparr>receiver_objs :=
             (\<lambda>r p pid w. (if r = 1 then Some (Std_exception (Failure ''boom'')) else None,
                            Suc w))\<rparr>\<rparr>"

text \<open>
  A connection on which transaction 1 is registered. Transaction 1 is named \<open>first\<close>,
  transaction 2 is named \<open>second\<close>, every other transaction has no name. A notice
  callback is installed.
\<close>

definition booked_connection :: "nat connection" where
  "booked_connection =
     idle_connection
       \<lparr>m_trans := Some 1,
        m_notice_waiters := Some \<lparr>notice_handler = Some (\<lambda>m w. Suc w), errorhandlers = []\<rparr>,
        client := quiet_client
          \<lparr>transaction_names :=
             (\<lambda>t. if t = 1 then ''first'' else if t = 2 then ''second'' else [])\<rparr>\<rparr>"

section \<open>Observations used in the statements\<close>

text \<open>The calls of receivers recorded in a trace.\<close>

fun is_receiver_call :: "event \<Rightarrow> bool" where
  "is_receiver_call (Receiver_call r p b) = True"
| "is_receiver_call _ = False"

definition receiver_calls :: "event list \<Rightarrow> event list" where
  "receiver_calls evs = filter is_receiver_call evs"

text \<open>
  One call, with the notification's payload and sender, for every entry that
  \<open>m_receivers\<close> holds for the notification's channel, in the order of the entries.
\<close>

definition expected_calls :: "'w connection \<Rightarrow> pgnotify \<Rightarrow> event list" where
  "expected_calls c N =
     map (\<lambda>i. Receiver_call (snd i) (extra N) (be_pid N))
       (equal_range (relname N) (m_receivers c))"

text \<open>Receivers throw nothing but objects derived from \<open>std::exception\<close>.\<close>

definition receivers_throw_std :: "'w client \<Rightarrow> bool" where
  "receivers_throw_std cl =
     (\<forall>r p b w. fst (receiver_objs cl r p b w) \<noteq> Some Foreign_exception)"

text \<open>No handler installed by \<open>listen\<close> throws.\<close>

definition handlers_never_throw :: "'w connection \<Rightarrow> bool" where
  "handlers_never_throw c =
     (\<forall>e \<in> set (m_notification_handlers c). \<forall>n w. fst (snd e n w) = None)"

text \<open>
  The second connection is the first one after code of the client program ran: they
  differ in the client's state and in the trace at most.
\<close>

definition client_ran :: "'w connection \<Rightarrow> 'w connection \<Rightarrow> bool" where
  "client_ran c c' =
     (m_conn c' = m_conn c \<and> m_trans c' = m_trans c \<and> m_receivers c' = m_receivers c \<and>
      m_notification_handlers c' = m_notification_handlers c \<and>
      m_notice_waiters c' = m_notice_waiters c \<and>
      errorhandler_objs (client c') = errorhandler_objs (client c) \<and>
      receiver_objs (client c') = receiver_objs (client c) \<and>
      transaction_names (client c') = transaction_names (client c) \<and>
      format_throws (client c') = format_throws (client c) \<and>
      vector_throws (client c') = vector_throws (client c))"

section \<open>Helper facts\<close>

lemma scast_line_length:
  assumes "0 < sint (n::c_int)"
  shows "int (unat (scast n - 1 :: size_t)) = sint n - 1"
proof -
  have bound: "sint n < 2 ^ 31" using sint_lt [of n] by simp
  have "(scast n - 1 :: size_t) = word_of_int (sint n - 1)"
    by simp
  then have "uint (scast n - 1 :: size_t) = (sint n - 1) mod 2 ^ 64"
    by (simp only: uint_word_of_int) simp
  also have "\<dots> = sint n - 1" using assms bound by simp
  finally show ?thesis by simp
qed

lemma field_charges:
  "(\<Sum>f\<leftarrow>fs. 2 * size_buffer f - 2) + 3 * of_nat (length fs) =
   (\<Sum>f\<leftarrow>fs. 2 * size_buffer f - 1) + 2 * (of_nat (length fs) :: size_t)"
  by (induction fs) (simp_all add: algebra_simps)

lemmas sample_defs =
  idle_connection_def idle_pgconn_def quiet_client_def copy_end_answers_def
  copy_end_transport_def copy_data_answers_def copy_data_transport_def

lemmas transport_defs =
  PQputCopyEnd_def PQgetCopyData_def PQgetResult_def PQexec_def PQclientEncoding_def
  encoding_id_def make_result_def is_open_def err_msg_def log_event_def

text \<open>
  Fetching the trailing result of a copy and validating it: the call is recorded and
  the result taken off the transport; a null result fails with the transport's error
  text, or with \<open>broken_connection\<close> when the connection is no longer open; so does a
  result whose encoding cannot be read; a result that carries a failure fails with it.
\<close>

lemma trailing_result:
  assumes "m_conn c = Some pg"
  shows "trace (client (snd (PQgetResult c))) = trace (client c) @ [PQgetResult_call]"
    and "map_option pending_results (m_conn (snd (PQgetResult c))) =
      Some (tl (pending_results pg))"
    and "make_result (fst (PQgetResult c)) (snd (PQgetResult c)) =
      (case pending_results pg of
         Some r # rs \<Rightarrow>
           if client_encoding pg = - 1 then
             Inl (if status_ok pg then Failure ''Could not obtain client encoding.''
                  else Broken_connection ''Lost connection to the database server.'')
           else (case res_failure r of Some e \<Rightarrow> Inl e | None \<Rightarrow> Inr r)
       | _ \<Rightarrow>
           Inl (if status_ok pg then Failure (error_message pg)
                else Broken_connection ''Lost connection to the database server.''))"
  using assms
  by (simp_all add: transport_defs Let_def split: list.splits option.splits)

section \<open>Copy streaming: the return codes of the transport\<close>

text \<open>
  C7, as the code has it. On a connection without a handle, \<open>end_copy_write\<close> fails
  with \<open>Failure\<close>. With a handle: the return code \<open>-1\<close> of the transport's end-of-copy
  call fails with \<open>Failure\<close> carrying the transport's last error text; \<open>0\<close> fails with
  \<open>InternalError\<close>; every other code but \<open>1\<close>, the negative ones below \<open>-1\<close> too,
  fails with \<open>InternalError\<close> reporting the value; none of these touches the
  connection. The code \<open>1\<close> fetches the trailing result from the transport and
  validates it: a null result fails with \<open>Failure\<close> carrying the transport's error
  text, or with \<open>broken_connection\<close> when the connection is no longer open; so does
  a result whose encoding cannot be read; a result that carries a failure fails with
  that failure; a sound result ends the call normally.
\<close>

theorem end_copy_write_return_codes:
  "(m_conn c = None \<longrightarrow>
      end_copy_write c =
        (Some (Failure ''Write to table failed: No connection to database''), c)) \<and>
   (\<forall>pg. m_conn c = Some pg \<longrightarrow>
      (copy_end_result pg = - 1 \<longrightarrow>
         end_copy_write c =
           (Some (Failure (''Write to table failed: '' @ error_message pg)), c)) \<and>
      (copy_end_result pg = 0 \<longrightarrow>
         end_copy_write c =
           (Some (Internal_error ''table write is inexplicably asynchronous''), c)) \<and>
      (copy_end_result pg \<notin> {- 1, 0, 1} \<longrightarrow>
         end_copy_write c =
           (Some (Internal_error
              (''unexpected result '' @ format_int (copy_end_result pg) @
               '' from PQputCopyEnd()'')), c)) \<and>
      (copy_end_result pg = 1 \<longrightarrow>
         trace (client (snd (end_copy_write c))) = trace (client c) @ [PQgetResult_call] \<and>
         map_option pending_results (m_conn (snd (end_copy_write c))) =
           Some (tl (pending_results pg)) \<and>
         fst (end_copy_write c) =
           (case pending_results pg of
              Some r # rs \<Rightarrow>
                if client_encoding pg = - 1 then
                  Some (if status_ok pg then Failure ''Could not obtain client encoding.''
                        else Broken_connection ''Lost connection to the database server.'')
                else res_failure r
            | _ \<Rightarrow>
                Some (if status_ok pg then Failure (error_message pg)
                      else Broken_connection ''Lost connection to the database server.''))))"
proof -
  have closed: "m_conn c = None \<longrightarrow>
      end_copy_write c =
        (Some (Failure ''Write to table failed: No connection to database''), c)"
    by (simp add: end_copy_write_def PQputCopyEnd_def err_msg_def)
  have "copy_end_result pg = 1 \<longrightarrow>
         trace (client (snd (end_copy_write c))) = trace (client c) @ [PQgetResult_call] \<and>
         map_option pending_results (m_conn (snd (end_copy_write c))) =
           Some (tl (pending_results pg)) \<and>
         fst (end_copy_write c) =
           (case pending_results pg of
              Some r # rs \<Rightarrow>
                if client_encoding pg = - 1 then
                  Some (if status_ok pg then Failure ''Could not obtain client encoding.''
                        else Broken_connection ''Lost connection to the database server.'')
                else res_failure r
            | _ \<Rightarrow>
                Some (if status_ok pg then Failure (error_message pg)
                      else Broken_connection ''Lost connection to the database server.''))"
    if pg: "m_conn c = Some pg" for pg
  proof
    assume one: "copy_end_result pg = 1"
    have run: "end_copy_write c =
        (case make_result (fst (PQgetResult c)) (snd (PQgetResult c)) of
           Inl e \<Rightarrow> (Some e, snd (PQgetResult c))
         | Inr r \<Rightarrow> (None, snd (PQgetResult c)))"
      using pg one by (simp add: end_copy_write_def PQputCopyEnd_def Let_def case_prod_beta)
    have state: "snd (end_copy_write c) = snd (PQgetResult c)"
      unfolding run by (simp split: sum.splits)
    show "trace (client (snd (end_copy_write c))) = trace (client c) @ [PQgetResult_call] \<and>
         map_option pending_results (m_conn (snd (end_copy_write c))) =
           Some (tl (pending_results pg)) \<and>
         fst (end_copy_write c) =
           (case pending_results pg of
              Some r # rs \<Rightarrow>
                if client_encoding pg = - 1 then
                  Some (if status_ok pg then Failure ''Could not obtain client encoding.''
                        else Broken_connection ''Lost connection to the database server.'')
                else res_failure r
            | _ \<Rightarrow>
                Some (if status_ok pg then Failure (error_message pg)
                      else Broken_connection ''Lost connection to the database server.''))"
      unfolding state
      using trailing_result(1,2) [OF pg]
      by (simp add: run trailing_result(3) [OF pg] split: list.splits option.splits)
  qed
  moreover have "(copy_end_result pg = - 1 \<longrightarrow>
         end_copy_write c =
           (Some (Failure (''Write to table failed: '' @ error_message pg)), c)) \<and>
      (copy_end_result pg = 0 \<longrightarrow>
         end_copy_write c =
           (Some (Internal_error ''table write is inexplicably asynchronous''), c)) \<and>
      (copy_end_result pg \<notin> {- 1, 0, 1} \<longrightarrow>
         end_copy_write c =
           (Some (Internal_error
              (''unexpected result '' @ format_int (copy_end_result pg) @
               '' from PQputCopyEnd()'')), c))"
    if pg: "m_conn c = Some pg" for pg
    using pg by (simp add: end_copy_write_def PQputCopyEnd_def err_msg_def Let_def)
  ultimately show ?thesis using closed by blast
qed

text \<open>
  On sample connections: no handle; the code \<open>-1\<close> with the transport's error text;
  the codes \<open>0\<close> and \<open>7\<close>; the code \<open>1\<close> with a sound trailing result, with a
  null one, and with one that carries a failure.
\<close>

theorem end_copy_write_return_codes_witness:
  "(m_conn (idle_connection\<lparr>m_conn := None\<rparr>) = None \<and>
    fst (end_copy_write (idle_connection\<lparr>m_conn := None\<rparr>)) =
      Some (Failure ''Write to table failed: No connection to database'')) \<and>
   (m_conn (copy_end_answers (- 1) ''connection reset by peer'' []) =
      Some (copy_end_transport (- 1) ''connection reset by peer'' []) \<and>
    copy_end_result (copy_end_transport (- 1) ''connection reset by peer'' []) = - 1 \<and>
    fst (end_copy_write (copy_end_answers (- 1) ''connection reset by peer'' [])) =
      Some (Failure ''Write to table failed: connection reset by peer'')) \<and>
   (copy_end_result (copy_end_transport 0 [] []) = 0 \<and>
    fst (end_copy_write (copy_end_answers 0 [] [])) =
      Some (Internal_error ''table write is inexplicably asynchronous'')) \<and>
   (copy_end_result (copy_end_transport 7 [] []) \<notin> {- 1, 0, 1} \<and>
    fst (end_copy_write (copy_end_answers 7 [] [])) =
      Some (Internal_error ''unexpected result 7 from PQputCopyEnd()'')) \<and>
   (copy_end_result (copy_end_transport 1 [] [Some \<lparr>res_failure = None, res_rows = 0\<rparr>]) = 1 \<and>
    fst (end_copy_write (copy_end_answers 1 [] [Some \<lparr>res_failure = None, res_rows = 0\<rparr>])) =
      None \<and>
    trace (client (snd (end_copy_write
      (copy_end_answers 1 [] [Some \<lparr>res_failure = None, res_rows = 0\<rparr>])))) =
      [PQgetResult_call]) \<and>
   (copy_end_result (copy_end_transport 1 ''out of memory'' [None]) = 1 \<and>
    fst (end_copy_write (copy_end_answers 1 ''out of memory'' [None])) =
      Some (Failure ''out of memory'')) \<and>
   (copy_end_result (copy_end_transport 1 []
       [Some \<lparr>res_failure = Some (Failure ''duplicate key''), res_rows = 0\<rparr>]) = 1 \<and>
    fst (end_copy_write (copy_end_answers 1 []
       [Some \<lparr>res_failure = Some (Failure ''duplicate key''), res_rows = 0\<rparr>])) =
      Some (Failure ''duplicate key''))"
  using end_copy_write_return_codes [of "idle_connection\<lparr>m_conn := None\<rparr>"]
    end_copy_write_return_codes [of "copy_end_answers (- 1) ''connection reset by peer'' []"]
    end_copy_write_return_codes [of "copy_end_answers 0 [] []"]
    end_copy_write_return_codes [of "copy_end_answers 7 [] []"]
    end_copy_write_return_codes
      [of "copy_end_answers 1 [] [Some \<lparr>res_failure = None, res_rows = 0\<rparr>]"]
    end_copy_write_return_codes [of "copy_end_answers 1 ''out of memory'' [None]"]
    end_copy_write_return_codes
      [of "copy_end_answers 1 []
             [Some \<lparr>res_failure = Some (Failure ''duplicate key''), res_rows = 0\<rparr>]"]
  by (simp add: sample_defs format_int_def decimal.simps)

text \<open>
  C7 as the claim states it fails: the return code \<open>-2\<close> is negative, and
  \<open>end_copy_write\<close> fails with \<open>InternalError\<close>, not with \<open>Failure\<close>.
\<close>

theorem end_copy_write_negative_counterexample:
  "sint (PQputCopyEnd (copy_end_answers (- 2) [] [])) < 0 \<and>
   fst (end_copy_write (copy_end_answers (- 2) [] [])) =
     Some (Internal_error ''unexpected result -2 from PQputCopyEnd()'')"
  by (simp add: end_copy_write_def sample_defs transport_defs format_int_def decimal.simps)

text \<open>
  C8. On a connection without a handle, \<open>read_copy_line\<close> fails with \<open>Failure\<close>.
  With a handle: the return code \<open>-2\<close> of the transport's copy-read call fails with
  \<open>Failure\<close> including the transport's last error text; \<open>0\<close> fails with
  \<open>InternalError\<close>; a positive code succeeds with the transport's buffer, and the
  length returned is the code minus one; none of these touches the connection. The
  code \<open>-1\<close> fetches the trailing result from the transport and validates it: a null
  result fails with \<open>Failure\<close> carrying the transport's error text, or with
  \<open>broken_connection\<close> when the connection is no longer open; so does a result whose
  encoding cannot be read; a result that carries a failure fails with that failure;
  after a sound result the call returns a null buffer with length zero.
\<close>

theorem read_copy_line_return_codes:
  "(m_conn c = None \<longrightarrow>
      read_copy_line c =
        (Inl (Failure ''Reading of table data failed: No connection to database''), c)) \<and>
   (\<forall>pg. m_conn c = Some pg \<longrightarrow>
      (fst (copy_data pg) = - 2 \<longrightarrow>
         read_copy_line c =
           (Inl (Failure (''Reading of table data failed: '' @ error_message pg)), c)) \<and>
      (fst (copy_data pg) = 0 \<longrightarrow>
         read_copy_line c =
           (Inl (Internal_error ''table read inexplicably went asynchronous''), c)) \<and>
      (0 < sint (fst (copy_data pg)) \<longrightarrow>
         (\<exists>len. read_copy_line c = (Inr (Some (snd (copy_data pg)), len), c) \<and>
                int (unat len) = sint (fst (copy_data pg)) - 1)) \<and>
      (fst (copy_data pg) = - 1 \<longrightarrow>
         trace (client (snd (read_copy_line c))) = trace (client c) @ [PQgetResult_call] \<and>
         map_option pending_results (m_conn (snd (read_copy_line c))) =
           Some (tl (pending_results pg)) \<and>
         fst (read_copy_line c) =
           (case pending_results pg of
              Some r # rs \<Rightarrow>
                if client_encoding pg = - 1 then
                  Inl (if status_ok pg then Failure ''Could not obtain client encoding.''
                       else Broken_connection ''Lost connection to the database server.'')
                else (case res_failure r of Some e \<Rightarrow> Inl e | None \<Rightarrow> Inr (None, 0))
            | _ \<Rightarrow>
                Inl (if status_ok pg then Failure (error_message pg)
                     else Broken_connection ''Lost connection to the database server.''))))"
proof -
  have closed: "m_conn c = None \<longrightarrow>
      read_copy_line c =
        (Inl (Failure ''Reading of table data failed: No connection to database''), c)"
    by (simp add: read_copy_line_def PQgetCopyData_def err_msg_def)
  have "fst (copy_data pg) = - 1 \<longrightarrow>
         trace (client (snd (read_copy_line c))) = trace (client c) @ [PQgetResult_call] \<and>
         map_option pending_results (m_conn (snd (read_copy_line c))) =
           Some (tl (pending_results pg)) \<and>
         fst (read_copy_line c) =
           (case pending_results pg of
              Some r # rs \<Rightarrow>
                if client_encoding pg = - 1 then
                  Inl (if status_ok pg then Failure ''Could not obtain client encoding.''
                       else Broken_connection ''Lost connection to the database server.'')
                else (case res_failure r of Some e \<Rightarrow> Inl e | None \<Rightarrow> Inr (None, 0))
            | _ \<Rightarrow>
                Inl (if status_ok pg then Failure (error_message pg)
                     else Broken_connection ''Lost connection to the database server.''))"
    if pg: "m_conn c = Some pg" for pg
  proof
    assume eof: "fst (copy_data pg) = - 1"
    have run: "read_copy_line c =
        (case make_result (fst (PQgetResult c)) (snd (PQgetResult c)) of
           Inl e \<Rightarrow> (Inl e, snd (PQgetResult c))
         | Inr r \<Rightarrow> (Inr (None, 0), snd (PQgetResult c)))"
      using pg eof by (simp add: read_copy_line_def PQgetCopyData_def Let_def case_prod_beta)
    have state: "snd (read_copy_line c) = snd (PQgetResult c)"
      unfolding run by (simp split: sum.splits)
    show "trace (client (snd (read_copy_line c))) = trace (client c) @ [PQgetResult_call] \<and>
         map_option pending_results (m_conn (snd (read_copy_line c))) =
           Some (tl (pending_results pg)) \<and>
         fst (read_copy_line c) =
           (case pending_results pg of
              Some r # rs \<Rightarrow>
                if client_encoding pg = - 1 then
                  Inl (if status_ok pg then Failure ''Could not obtain client encoding.''
                       else Broken_connection ''Lost connection to the database server.'')
                else (case res_failure r of Some e \<Rightarrow> Inl e | None \<Rightarrow> Inr (None, 0))
            | _ \<Rightarrow>
                Inl (if status_ok pg then Failure (error_message pg)
                     else Broken_connection ''Lost connection to the database server.''))"
      unfolding state
      using trailing_result(1,2) [OF pg]
      by (simp add: run trailing_result(3) [OF pg] split: list.splits option.splits)
  qed
  moreover have "(fst (copy_data pg) = - 2 \<longrightarrow>
         read_copy_line c =
           (Inl (Failure (''Reading of table data failed: '' @ error_message pg)), c)) \<and>
      (fst (copy_data pg) = 0 \<longrightarrow>
         read_copy_line c =
           (Inl (Internal_error ''table read inexplicably went asynchronous''), c)) \<and>
      (0 < sint (fst (copy_data pg)) \<longrightarrow>
         (\<exists>len. read_copy_line c = (Inr (Some (snd (copy_data pg)), len), c) \<and>
                int (unat len) = sint (fst (copy_data pg)) - 1))"
    if pg: "m_conn c = Some pg" for pg
  proof -
    have positive: "0 < sint n \<Longrightarrow> n \<noteq> - 2 \<and> n \<noteq> - 1 \<and> n \<noteq> 0" for n :: c_int
      by auto
    show ?thesis
      using pg positive [of "fst (copy_data pg)"] scast_line_length [of "fst (copy_data pg)"]
      by (simp add: read_copy_line_def PQgetCopyData_def err_msg_def Let_def case_prod_beta)
  qed
  ultimately show ?thesis using closed by blast
qed

text \<open>
  On sample connections: no handle; the code \<open>-2\<close> with the transport's error text;
  the code \<open>0\<close>; the code \<open>4\<close> with a buffer of three characters and a terminator;
  the code \<open>-1\<close> with a sound trailing result, with a null one, and with one that
  carries a failure.
\<close>

theorem read_copy_line_return_codes_witness:
  "(m_conn (idle_connection\<lparr>m_conn := None\<rparr>) = None \<and>
    fst (read_copy_line (idle_connection\<lparr>m_conn := None\<rparr>)) =
      Inl (Failure ''Reading of table data failed: No connection to database'')) \<and>
   (m_conn (copy_data_answers (- 2) [] ''connection reset by peer'' []) =
      Some (copy_data_transport (- 2) [] ''connection reset by peer'' []) \<and>
    fst (copy_data (copy_data_transport (- 2) [] ''connection reset by peer'' [])) = - 2 \<and>
    fst (read_copy_line (copy_data_answers (- 2) [] ''connection reset by peer'' [])) =
      Inl (Failure ''Reading of table data failed: connection reset by peer'')) \<and>
   (fst (copy_data (copy_data_transport 0 [] [] [])) = 0 \<and>
    fst (read_copy_line (copy_data_answers 0 [] [] [])) =
      Inl (Internal_error ''table read inexplicably went asynchronous'')) \<and>
   (0 < sint (fst (copy_data (copy_data_transport 4 (''a,b'' @ [CHR 0x00]) [] []))) \<and>
    fst (read_copy_line (copy_data_answers 4 (''a,b'' @ [CHR 0x00]) [] [])) =
      Inr (Some (''a,b'' @ [CHR 0x00]), 3)) \<and>
   (fst (copy_data (copy_data_transport (- 1) [] []
       [Some \<lparr>res_failure = None, res_rows = 0\<rparr>])) = - 1 \<and>
    fst (read_copy_line (copy_data_answers (- 1) [] []
       [Some \<lparr>res_failure = None, res_rows = 0\<rparr>])) = Inr (None, 0) \<and>
    trace (client (snd (read_copy_line (copy_data_answers (- 1) [] []
       [Some \<lparr>res_failure = None, res_rows = 0\<rparr>])))) = [PQgetResult_call]) \<and>
   (fst (copy_data (copy_data_transport (- 1) [] ''out of memory'' [None])) = - 1 \<and>
    fst (read_copy_line (copy_data_answers (- 1) [] ''out of memory'' [None])) =
      Inl (Failure ''out of memory'')) \<and>
   (fst (copy_data (copy_data_transport (- 1) [] []
       [Some \<lparr>res_failure = Some (Failure ''disk full''), res_rows = 0\<rparr>])) = - 1 \<and>
    fst (read_copy_line (copy_data_answers (- 1) [] []
       [Some \<lparr>res_failure = Some (Failure ''disk full''), res_rows = 0\<rparr>])) =
      Inl (Failure ''disk full''))"
  using read_copy_line_return_codes [of "idle_connection\<lparr>m_conn := None\<rparr>"]
    read_copy_line_return_codes [of "copy_data_answers (- 2) [] ''connection reset by peer'' []"]
    read_copy_line_return_codes [of "copy_data_answers 0 [] [] []"]
    read_copy_line_return_codes [of "copy_data_answers 4 (''a,b'' @ [CHR 0x00]) [] []"]
    read_copy_line_return_codes
      [of "copy_data_answers (- 1) [] [] [Some \<lparr>res_failure = None, res_rows = 0\<rparr>]"]
    read_copy_line_return_codes [of "copy_data_answers (- 1) [] ''out of memory'' [None]"]
    read_copy_line_return_codes
      [of "copy_data_answers (- 1) [] []
             [Some \<lparr>res_failure = Some (Failure ''disk full''), res_rows = 0\<rparr>]"]
  by (simp add: sample_defs transport_defs read_copy_line_def)

section \<open>Composite values: the size estimate\<close>

text \<open>
  C9: for a tuple of at least one field, the estimate of \<open>composite_size_buffer\<close> is
  the sum over the fields of twice the field's own estimate minus one, plus two bytes
  for every field and two bytes for the value, in the wrapping arithmetic of
  \<open>std::size_t\<close>; and \<open>composite_into_buf\<close> throws \<open>ConversionError\<close> whenever the
  room it is given is smaller than the estimate, writing nothing.
\<close>

theorem composite_estimate:
  "fs \<noteq> [] \<Longrightarrow>
     composite_size_buffer fs =
       (\<Sum>f\<leftarrow>fs. 2 * size_buffer f - 1) + 2 * of_nat (length fs) + 2 \<and>
     (\<forall>space. space < composite_size_buffer fs \<longrightarrow>
        composite_into_buf space fs =
          Inl (Conversion_error ''Buffer space may not be enough to represent composite value.''))"
  using field_charges [of fs]
  by (simp add: composite_size_buffer_def composite_into_buf_def algebra_simps)

text \<open>
  Two fields, the text \<open>abc\<close> with estimate 4 and a null with estimate 0: the estimate
  is 12, room for 11 bytes is refused and room for 12 is taken.
\<close>

theorem composite_estimate_witness:
  "[\<lparr>size_buffer = 4, written = [CHR 0x22] @ ''abc'' @ [CHR 0x22] @ '',''\<rparr>,
    \<lparr>size_buffer = 0, written = '',''\<rparr>] \<noteq> [] \<and>
   composite_size_buffer
     [\<lparr>size_buffer = 4, written = [CHR 0x22] @ ''abc'' @ [CHR 0x22] @ '',''\<rparr>,
      \<lparr>size_buffer = 0, written = '',''\<rparr>] = 12 \<and>
   (11::size_t) < 12 \<and>
   composite_into_buf 11
     [\<lparr>size_buffer = 4, written = [CHR 0x22] @ ''abc'' @ [CHR 0x22] @ '',''\<rparr>,
      \<lparr>size_buffer = 0, written = '',''\<rparr>] =
     Inl (Conversion_error ''Buffer space may not be enough to represent composite value.'') \<and>
   composite_into_buf 12
     [\<lparr>size_buffer = 4, written = [CHR 0x22] @ ''abc'' @ [CHR 0x22] @ '',''\<rparr>,
      \<lparr>size_buffer = 0, written = '',''\<rparr>] =
     Inr (''('' @ [CHR 0x22] @ ''abc'' @ [CHR 0x22] @ '',)'' @ [CHR 0x00])"
  using composite_estimate
    [of "[\<lparr>size_buffer = 4, written = [CHR 0x22] @ ''abc'' @ [CHR 0x22] @ '',''\<rparr>,
          \<lparr>size_buffer = 0, written = '',''\<rparr>]"]
  by (simp add: composite_into_buf_def)

section \<open>Notice delivery: order and propagation\<close>

lemma call_errorhandlers_trace:
  "\<exists>rs. length rs \<le> length hs \<and>
     trace (call_errorhandlers hs msg cl) =
       trace cl @ map (\<lambda>(h, r). Errorhandler_call h msg r) (zip hs rs) \<and>
     (\<forall>r \<in> set (butlast rs). r) \<and>
     (length rs < length hs \<longrightarrow> rs \<noteq> [] \<and> \<not> last rs)"
proof (induction hs arbitrary: cl)
  case Nil
  then show ?case by simp
next
  case (Cons h hs)
  define r where "r = errorhandler_objs cl h msg (world cl)"
  define cl' where
    "cl' = cl\<lparr>world := snd r, trace := trace cl @ [Errorhandler_call h msg (fst r)]\<rparr>"
  show ?case
  proof (cases "fst r")
    case True
    from Cons.IH [of cl'] obtain rs where rs:
      "length rs \<le> length hs"
      "trace (call_errorhandlers hs msg cl') =
         trace cl' @ map (\<lambda>(h, r). Errorhandler_call h msg r) (zip hs rs)"
      "\<forall>r \<in> set (butlast rs). r"
      "length rs < length hs \<longrightarrow> rs \<noteq> [] \<and> \<not> last rs"
      by blast
    have run: "call_errorhandlers (h # hs) msg cl = call_errorhandlers hs msg cl'"
      using True by (simp add: r_def cl'_def Let_def)
    have "length (True # rs) \<le> length (h # hs)" using rs(1) by simp
    moreover have "trace (call_errorhandlers (h # hs) msg cl) =
        trace cl @ map (\<lambda>(h, r). Errorhandler_call h msg r) (zip (h # hs) (True # rs))"
      unfolding run using rs(2) True by (simp add: cl'_def)
    moreover have "\<forall>r \<in> set (butlast (True # rs)). r" using rs(3) by auto
    moreover have "length (True # rs) < length (h # hs) \<longrightarrow>
        True # rs \<noteq> [] \<and> \<not> last (True # rs)"
      using rs(4) by simp
    ultimately show ?thesis by blast
  next
    case False
    have run: "call_errorhandlers (h # hs) msg cl = cl'"
      using False by (simp add: r_def cl'_def Let_def)
    have "trace (call_errorhandlers (h # hs) msg cl) =
        trace cl @ map (\<lambda>(h, r). Errorhandler_call h msg r) (zip (h # hs) [False])"
      unfolding run using False by (simp add: cl'_def)
    then show ?thesis
      by (intro exI [of _ "[False]"]) simp
  qed
qed

text \<open>
  C1, as the code has it: registering puts a handler in front of the others in the order
  of the visits. For a notice with a non-empty message, the error handlers that run are
  an initial stretch of the registered ones taken last-registered first, each given the
  message; every one of them but the last let the notice pass, and when the stretch
  ends before the list does, its last handler stopped the notice. The notice callback,
  when one is installed, is then called with the full text, whether or not a handler
  stopped the notice. \<open>process_notice\<close> hands a non-empty message to this delivery.
\<close>

theorem process_notice_raw_order:
  assumes "msg \<noteq> []"
  shows
    "(\<exists>rs. length rs \<le> length (errorhandlers ws) \<and>
        trace (process_notice_raw (Some ws) msg cl) =
          trace cl @
          map (\<lambda>(h, r). Errorhandler_call h msg r) (zip (rev (errorhandlers ws)) rs) @
          (case notice_handler ws of None \<Rightarrow> [] | Some f \<Rightarrow> [Notice_handler_call msg]) \<and>
        (\<forall>r \<in> set (butlast rs). r) \<and>
        (length rs < length (errorhandlers ws) \<longrightarrow> rs \<noteq> [] \<and> \<not> last rs)) \<and>
     client (process_notice msg c) = process_notice_raw (m_notice_waiters c) msg (client c) \<and>
     (\<forall>ws'. m_notice_waiters c = Some ws' \<longrightarrow>
        map_option (\<lambda>w. rev (errorhandlers w)) (m_notice_waiters (register_errorhandler h c)) =
          Some (h # rev (errorhandlers ws')))"
proof -
  from call_errorhandlers_trace [of "rev (errorhandlers ws)" msg cl] obtain rs where rs:
    "length rs \<le> length (errorhandlers ws)"
    "trace (call_errorhandlers (rev (errorhandlers ws)) msg cl) =
       trace cl @ map (\<lambda>(h, r). Errorhandler_call h msg r) (zip (rev (errorhandlers ws)) rs)"
    "\<forall>r \<in> set (butlast rs). r"
    "length rs < length (errorhandlers ws) \<longrightarrow> rs \<noteq> [] \<and> \<not> last rs"
    by auto
  have "trace (process_notice_raw (Some ws) msg cl) =
      trace cl @
      map (\<lambda>(h, r). Errorhandler_call h msg r) (zip (rev (errorhandlers ws)) rs) @
      (case notice_handler ws of None \<Rightarrow> [] | Some f \<Rightarrow> [Notice_handler_call msg])"
    using assms rs(2)
    by (simp add: process_notice_raw_def call_notice_handler_def split: option.splits)
  with rs(1,3,4) have first: "\<exists>rs. length rs \<le> length (errorhandlers ws) \<and>
        trace (process_notice_raw (Some ws) msg cl) =
          trace cl @
          map (\<lambda>(h, r). Errorhandler_call h msg r) (zip (rev (errorhandlers ws)) rs) @
          (case notice_handler ws of None \<Rightarrow> [] | Some f \<Rightarrow> [Notice_handler_call msg]) \<and>
        (\<forall>r \<in> set (butlast rs). r) \<and>
        (length rs < length (errorhandlers ws) \<longrightarrow> rs \<noteq> [] \<and> \<not> last rs)"
    by blast
  have second:
    "client (process_notice msg c) = process_notice_raw (m_notice_waiters c) msg (client c)"
    using assms by (simp add: process_notice_def)
  have third: "\<forall>ws'. m_notice_waiters c = Some ws' \<longrightarrow>
        map_option (\<lambda>w. rev (errorhandlers w)) (m_notice_waiters (register_errorhandler h c)) =
          Some (h # rev (errorhandlers ws'))"
    by (simp add: register_errorhandler_def)
  from first second third show ?thesis by blast
qed

text \<open>
  The handlers 1, 2 and 3 are registered in this order, handler 2 stops every notice,
  and a notice callback is installed: handler 3 runs, then handler 2, handler 1 does
  not, and the callback is called.
\<close>

theorem process_notice_raw_order_witness:
  "''warning'' \<noteq> [] \<and>
   m_notice_waiters
     (idle_connection
        \<lparr>m_notice_waiters := Some \<lparr>notice_handler = Some (\<lambda>m w. Suc w), errorhandlers = []\<rparr>\<rparr>) =
     Some \<lparr>notice_handler = Some (\<lambda>m w. Suc w), errorhandlers = []\<rparr> \<and>
   trace (client (process_notice ''warning''
     (register_errorhandler 3 (register_errorhandler 2 (register_errorhandler 1
        (idle_connection
           \<lparr>m_notice_waiters := Some \<lparr>notice_handler = Some (\<lambda>m w. Suc w), errorhandlers = []\<rparr>,
            client := quiet_client\<lparr>errorhandler_objs := (\<lambda>h m w. (h \<noteq> 2, w))\<rparr>\<rparr>)))))) =
     [Errorhandler_call 3 ''warning'' True, Errorhandler_call 2 ''warning'' False,
      Notice_handler_call ''warning'']"
  using process_notice_raw_order
    [of "''warning''" "\<lparr>notice_handler = Some (\<lambda>m w. Suc w), errorhandlers = [1, 2, 3]\<rparr>"
        "quiet_client\<lparr>errorhandler_objs := (\<lambda>h m w. (h \<noteq> 2, w))\<rparr>"
        "idle_connection
           \<lparr>m_notice_waiters := Some \<lparr>notice_handler = Some (\<lambda>m w. Suc w), errorhandlers = []\<rparr>\<rparr>"
        1]
  by (simp add: process_notice_def process_notice_raw_def call_notice_handler_def
      register_errorhandler_def idle_connection_def quiet_client_def Let_def)

text \<open>
  C1 as the claim states it fails: with one handler, which stops the notice, the notice
  callback still receives the text.
\<close>

theorem notice_callback_counterexample:
  "trace (client (process_notice ''warning''
      (idle_connection
         \<lparr>m_notice_waiters := Some \<lparr>notice_handler = Some (\<lambda>m w. Suc w), errorhandlers = [7]\<rparr>,
          client := quiet_client\<lparr>errorhandler_objs := (\<lambda>h m w. (False, w))\<rparr>\<rparr>))) =
     [Errorhandler_call 7 ''warning'' False, Notice_handler_call ''warning'']"
  by (simp add: process_notice_def process_notice_raw_def call_notice_handler_def
      idle_connection_def quiet_client_def Let_def)

section \<open>Guest registration: the transaction slot\<close>

text \<open>
  C5. A transaction is described by its kind, \<open>transaction\<close>, followed by its name in
  quotes when it has one. \<open>register_transaction\<close> fails with \<open>UsageError\<close>, describing
  the new and the old transaction so, when the slot holds a transaction that is not the
  new one, and leaves the connection as it was; otherwise it stores the new one.
  \<open>unregister_transaction\<close> of a transaction that is not the registered one throws
  nothing: the error, describing both, goes out as a notice (to the notice callback,
  when no error handler is registered), and the slot is cleared; unregistering the
  registered one clears the slot and nothing else.
\<close>

theorem transaction_registration:
  "(let name = (\<lambda>p. case p of None \<Rightarrow> [] | Some q \<Rightarrow> transaction_names (client c) q);
        describe = (\<lambda>n. if n = [] then ''transaction''
                        else ''transaction '' @ [CHR 0x27] @ n @ [CHR 0x27]);
        mismatch = ''Closed '' @ describe (name t) @ ''; expected to close '' @
                   describe (name (m_trans c))
    in (m_trans c \<noteq> None \<and> m_trans c \<noteq> t \<longrightarrow>
          register_transaction t c =
            (Some (Usage_error
               (''Started new '' @ describe (name t) @ '' while '' @
                describe (name (m_trans c)) @ '' was still active.'')),
             c)) \<and>
       (\<not> (m_trans c \<noteq> None \<and> m_trans c \<noteq> t) \<longrightarrow>
          register_transaction t c = (None, c\<lparr>m_trans := t\<rparr>)) \<and>
       (t \<noteq> m_trans c \<longrightarrow>
          unregister_transaction t c = (process_notice mismatch c)\<lparr>m_trans := None\<rparr> \<and>
          (\<forall>ws f. m_notice_waiters c = Some ws \<and> errorhandlers ws = [] \<and>
                  notice_handler ws = Some f \<longrightarrow>
             trace (client (unregister_transaction t c)) =
               trace (client c) @ [Notice_handler_call mismatch])) \<and>
       (t = m_trans c \<longrightarrow> unregister_transaction t c = c\<lparr>m_trans := None\<rparr>))"
proof -
  define name where
    "name = (\<lambda>p. case p of None \<Rightarrow> [] | Some q \<Rightarrow> transaction_names (client c) q)"
  define describe where
    "describe = (\<lambda>n. if n = [] then ''transaction''
                      else ''transaction '' @ [CHR 0x27] @ n @ [CHR 0x27])"
  define mismatch where
    "mismatch = ''Closed '' @ describe (name t) @ ''; expected to close '' @
                describe (name (m_trans c))"
  have names: "get_name c p = name p" for p
    by (simp add: get_name_def name_def)
  have describes: "describe_object ''transaction'' n = describe n" for n
    by (simp add: describe_object_def describe_def)
  have reg_fail: "m_trans c \<noteq> None \<and> m_trans c \<noteq> t \<longrightarrow>
      register_transaction t c =
        (Some (Usage_error
           (''Started new '' @ describe (name t) @ '' while '' @
            describe (name (m_trans c)) @ '' was still active.'')),
         c)"
    by (simp add: register_transaction_def register_transaction_checked_def
        check_unique_register_def names describes)
  have reg_ok: "\<not> (m_trans c \<noteq> None \<and> m_trans c \<noteq> t) \<longrightarrow>
      register_transaction t c = (None, c\<lparr>m_trans := t\<rparr>)"
    by (simp add: register_transaction_def register_transaction_checked_def
        check_unique_register_def)
  have unreg: "unregister_transaction t c = (process_notice mismatch c)\<lparr>m_trans := None\<rparr>"
    if "t \<noteq> m_trans c"
    using that
    by (simp add: unregister_transaction_def unregister_transaction_checked_def
        check_unique_unregister_def names describes mismatch_def)
  have filled: "mismatch \<noteq> []" by (simp add: mismatch_def)
  have notice: "trace (client (unregister_transaction t c)) =
      trace (client c) @ [Notice_handler_call mismatch]"
    if "t \<noteq> m_trans c" "m_notice_waiters c = Some ws" "errorhandlers ws = []"
      "notice_handler ws = Some f" for ws f
    unfolding unreg [OF that(1)] using that(2-4) filled
    by (simp add: process_notice_def process_notice_raw_def call_notice_handler_def)
  have unreg_same: "t = m_trans c \<longrightarrow> unregister_transaction t c = c\<lparr>m_trans := None\<rparr>"
    by (simp add: unregister_transaction_def unregister_transaction_checked_def
        check_unique_unregister_def)
  have "(m_trans c \<noteq> None \<and> m_trans c \<noteq> t \<longrightarrow>
          register_transaction t c =
            (Some (Usage_error
               (''Started new '' @ describe (name t) @ '' while '' @
                describe (name (m_trans c)) @ '' was still active.'')),
             c)) \<and>
       (\<not> (m_trans c \<noteq> None \<and> m_trans c \<noteq> t) \<longrightarrow>
          register_transaction t c = (None, c\<lparr>m_trans := t\<rparr>)) \<and>
       (t \<noteq> m_trans c \<longrightarrow>
          unregister_transaction t c = (process_notice mismatch c)\<lparr>m_trans := None\<rparr> \<and>
          (\<forall>ws f. m_notice_waiters c = Some ws \<and> errorhandlers ws = [] \<and>
                  notice_handler ws = Some f \<longrightarrow>
             trace (client (unregister_transaction t c)) =
               trace (client c) @ [Notice_handler_call mismatch])) \<and>
       (t = m_trans c \<longrightarrow> unregister_transaction t c = c\<lparr>m_trans := None\<rparr>)"
    using reg_fail reg_ok unreg notice unreg_same by blast
  then show ?thesis
    unfolding Let_def name_def describe_def mismatch_def .
qed

text \<open>
  With transaction \<open>first\<close> registered: registering transaction \<open>second\<close> fails and
  names both; registering the unnamed transaction 3 fails and names the old one;
  registering transaction \<open>first\<close> again, or a transaction on a free slot, stores it.
  Unregistering transaction \<open>second\<close> clears the slot and sends one notice that names
  both; unregistering transaction \<open>first\<close> clears the slot and sends nothing.
\<close>

theorem transaction_registration_witness:
  "(m_trans booked_connection \<noteq> None \<and> m_trans booked_connection \<noteq> Some 2 \<and>
    register_transaction (Some 2) booked_connection =
      (Some (Usage_error
         (''Started new transaction '' @ [CHR 0x27] @ ''second'' @ [CHR 0x27] @
          '' while transaction '' @ [CHR 0x27] @ ''first'' @ [CHR 0x27] @
          '' was still active.'')),
       booked_connection)) \<and>
   (m_trans booked_connection \<noteq> Some 3 \<and>
    fst (register_transaction (Some 3) booked_connection) =
      Some (Usage_error
         (''Started new transaction while transaction '' @ [CHR 0x27] @ ''first'' @
          [CHR 0x27] @ '' was still active.''))) \<and>
   (\<not> (m_trans booked_connection \<noteq> None \<and> m_trans booked_connection \<noteq> Some 1) \<and>
    register_transaction (Some 1) booked_connection = (None, booked_connection)) \<and>
   (\<not> (m_trans idle_connection \<noteq> None \<and> m_trans idle_connection \<noteq> Some 1) \<and>
    register_transaction (Some 1) idle_connection =
      (None, idle_connection\<lparr>m_trans := Some 1\<rparr>)) \<and>
   (Some 2 \<noteq> m_trans booked_connection \<and>
    m_trans (unregister_transaction (Some 2) booked_connection) = None \<and>
    trace (client (unregister_transaction (Some 2) booked_connection)) =
      [Notice_handler_call
         (''Closed transaction '' @ [CHR 0x27] @ ''second'' @ [CHR 0x27] @
          ''; expected to close transaction '' @ [CHR 0x27] @ ''first'' @ [CHR 0x27])]) \<and>
   (Some 1 = m_trans booked_connection \<and>
    unregister_transaction (Some 1) booked_connection = booked_connection\<lparr>m_trans := None\<rparr> \<and>
    trace (client (unregister_transaction (Some 1) booked_connection)) = [])"
  using transaction_registration [of booked_connection "Some 2"]
    transaction_registration [of booked_connection "Some 3"]
    transaction_registration [of booked_connection "Some 1"]
    transaction_registration [of idle_connection "Some 1"]
  by (simp add: booked_connection_def idle_connection_def quiet_client_def Let_def
      process_notice_def process_notice_raw_def call_notice_handler_def)

text \<open>
  C10: after \<open>unregister_transaction\<close> the slot is empty, whatever the check of the
  guest says about the transaction given: when the check fails, its message goes out as
  a notice, and the slot is cleared all the same.
\<close>

theorem unregister_transaction_clears_slot:
  "m_trans (unregister_transaction_checked chk t c) = None \<and>
   m_trans (unregister_transaction t c) = None \<and>
   (\<forall>e. chk (m_trans c) ''transaction'' (get_name c (m_trans c))
           t ''transaction'' (get_name c t) = Some e \<longrightarrow>
        unregister_transaction_checked chk t c = (process_notice (what e) c)\<lparr>m_trans := None\<rparr>)"
  by (simp add: unregister_transaction_def unregister_transaction_checked_def Let_def)

text \<open>
  Unregistering transaction 2 while transaction 1 is registered, with a notice callback
  that counts: the check fails, the callback is called once, the slot is empty.
\<close>

theorem unregister_transaction_clears_slot_witness:
  "check_unique_unregister (Some 1) ''transaction'' [] (Some 2) ''transaction'' [] =
     Some (Usage_error ''Closed transaction; expected to close transaction'') \<and>
   m_trans (unregister_transaction (Some 2)
      (idle_connection\<lparr>m_trans := Some 1,
         m_notice_waiters := Some \<lparr>notice_handler = Some (\<lambda>m w. Suc w), errorhandlers = []\<rparr>\<rparr>)) = None \<and>
   trace (client (unregister_transaction (Some 2)
      (idle_connection\<lparr>m_trans := Some 1,
         m_notice_waiters := Some \<lparr>notice_handler = Some (\<lambda>m w. Suc w), errorhandlers = []\<rparr>\<rparr>))) =
     [Notice_handler_call ''Closed transaction; expected to close transaction'']"
  using unregister_transaction_clears_slot
    [of check_unique_unregister "Some 2"
        "idle_connection\<lparr>m_trans := Some 1,
           m_notice_waiters := Some \<lparr>notice_handler = Some (\<lambda>m w. Suc w), errorhandlers = []\<rparr>\<rparr>"]
  by (simp add: unregister_transaction_def idle_connection_def quiet_client_def get_name_def
      describe_object_def check_unique_unregister_def process_notice_def
      process_notice_raw_def call_notice_handler_def)

section \<open>Closing\<close>

lemma close_no_handle: "m_conn c = None \<Longrightarrow> close c = (None, c)"
  by (simp add: close_def)

lemma close_try_done: "close_try c = (None, c1) \<Longrightarrow> m_conn c1 = None"
  by (auto simp: close_try_def Let_def split: if_splits option.splits sum.splits)

lemma close_nulls_handle: "m_conn (snd (close c)) = None"
proof (cases "m_conn c = None")
  case True
  then show ?thesis by (simp add: close_def)
next
  case False
  obtain r c1 where run: "close_try c = (r, c1)" by (cases "close_try c")
  show ?thesis
  proof (cases r)
    case None
    with run close_try_done [of c c1] False show ?thesis by (simp add: close_def)
  next
    case (Some e)
    with run False show ?thesis by (simp add: close_def)
  qed
qed

lemma close_again: "close (snd (close c)) = (None, snd (close c))"
  by (rule close_no_handle) (rule close_nulls_handle)

lemma close_many: "((\<lambda>s. snd (close s)) ^^ Suc n) c = snd (close c)"
proof (induction n)
  case 0
  then show ?case by simp
next
  case (Suc n)
  have "((\<lambda>s. snd (close s)) ^^ Suc (Suc n)) c = snd (close (((\<lambda>s. snd (close s)) ^^ Suc n) c))"
    by simp
  also have "\<dots> = snd (close (snd (close c)))" by (simp only: Suc.IH)
  also have "\<dots> = snd (close c)" by (simp add: close_again)
  finally show ?case .
qed

text \<open>
  C3: \<open>close\<close> on a connection whose handle is null returns at once and changes
  nothing. After any call of \<open>close\<close> the handle is null, also when the call leaves
  with an exception. So a second call is such a no-op, and closing \<open>n + 1\<close> times
  leaves the state, the trace of outside calls included, that closing once leaves.
\<close>

theorem close_idempotent:
  "(m_conn c = None \<longrightarrow> close c = (None, c)) \<and>
   m_conn (snd (close c)) = None \<and>
   (\<forall>e. fst (close c) = Some e \<longrightarrow> m_conn (snd (close c)) = None) \<and>
   close (snd (close c)) = (None, snd (close c)) \<and>
   ((\<lambda>s. snd (close s)) ^^ Suc n) c = snd (close c)"
  using close_no_handle [of c] close_nulls_handle [of c] close_again [of c] close_many [of n c]
  by simp

text \<open>
  A connection that was never opened stays as it is. An open connection with a
  transaction registered, on which building the notice text runs out of memory: the
  exception leaves \<open>close\<close>, and the handle is null.
\<close>

theorem close_idempotent_witness:
  "(m_conn (idle_connection\<lparr>m_conn := None\<rparr>) = None \<and>
    close (idle_connection\<lparr>m_conn := None\<rparr>) = (None, idle_connection\<lparr>m_conn := None\<rparr>)) \<and>
   (fst (close (idle_connection
           \<lparr>m_trans := Some 1, client := quiet_client\<lparr>format_throws := (\<lambda>s. Some Bad_alloc)\<rparr>\<rparr>)) =
      Some Bad_alloc \<and>
    m_conn (snd (close (idle_connection
           \<lparr>m_trans := Some 1, client := quiet_client\<lparr>format_throws := (\<lambda>s. Some Bad_alloc)\<rparr>\<rparr>))) =
      None) \<and>
   (fst (close idle_connection) = None \<and>
    trace (client (snd (close idle_connection))) = [PQfinish_call] \<and>
    trace (client (((\<lambda>s. snd (close s)) ^^ Suc 2) idle_connection)) = [PQfinish_call])"
  using close_idempotent [of "idle_connection\<lparr>m_conn := None\<rparr>" 0]
    close_idempotent
      [of "idle_connection
             \<lparr>m_trans := Some 1, client := quiet_client\<lparr>format_throws := (\<lambda>s. Some Bad_alloc)\<rparr>\<rparr>" 0]
    close_idempotent [of idle_connection 2]
  by (simp add: close_def close_try_def idle_connection_def quiet_client_def idle_pgconn_def
      PQfinish_def log_event_def Let_def)

section \<open>Notification dispatch: what client code leaves untouched\<close>

lemma client_ran_refl: "client_ran c c"
  by (simp add: client_ran_def)

lemma client_ran_trans: "client_ran a b \<Longrightarrow> client_ran b c \<Longrightarrow> client_ran a c"
  by (simp add: client_ran_def)

lemma client_ran_fields:
  assumes "client_ran c c'"
  shows "m_conn c' = m_conn c" "m_trans c' = m_trans c" "m_receivers c' = m_receivers c"
    "m_notification_handlers c' = m_notification_handlers c"
    "m_notice_waiters c' = m_notice_waiters c"
    "receiver_objs (client c') = receiver_objs (client c)"
    "format_throws (client c') = format_throws (client c)"
  using assms by (simp_all add: client_ran_def)

lemma client_ran_log: "client_ran c (log_event e (c\<lparr>client := (client c)\<lparr>world := w\<rparr>\<rparr>))"
  by (simp add: client_ran_def log_event_def)

lemma call_errorhandlers_frame:
  "errorhandler_objs (call_errorhandlers hs msg cl) = errorhandler_objs cl \<and>
   receiver_objs (call_errorhandlers hs msg cl) = receiver_objs cl \<and>
   transaction_names (call_errorhandlers hs msg cl) = transaction_names cl \<and>
   format_throws (call_errorhandlers hs msg cl) = format_throws cl \<and>
   vector_throws (call_errorhandlers hs msg cl) = vector_throws cl"
  by (induction hs arbitrary: cl) (simp_all add: Let_def)

lemma call_errorhandlers_receiver_calls:
  "receiver_calls (trace (call_errorhandlers hs msg cl)) = receiver_calls (trace cl)"
  by (induction hs arbitrary: cl) (simp_all add: Let_def receiver_calls_def)

lemma process_notice_ran: "client_ran c (process_notice msg c)"
  by (simp add: client_ran_def process_notice_def process_notice_raw_def
      call_notice_handler_def call_errorhandlers_frame split: option.splits)

lemma process_notice_receiver_calls:
  "receiver_calls (trace (client (process_notice msg c))) = receiver_calls (trace (client c))"
proof -
  have nh: "receiver_calls (trace (call_notice_handler ws msg cl)) = receiver_calls (trace cl)"
    for ws and cl :: "'w client"
    by (simp add: call_notice_handler_def receiver_calls_def split: option.splits)
  show ?thesis
    by (simp add: process_notice_def process_notice_raw_def nh
        call_errorhandlers_receiver_calls split: option.splits)
qed

lemma report_ran: "client_ran c (report_receiver_exception ch e c)"
  by (simp add: report_receiver_exception_def Let_def process_notice_ran
      split: option.splits error.splits)

lemma report_receiver_calls:
  "receiver_calls (trace (client (report_receiver_exception ch e c))) =
   receiver_calls (trace (client c))"
  by (simp add: report_receiver_exception_def Let_def process_notice_receiver_calls
      split: option.splits error.splits)

lemma call_receivers_all:
  assumes "receivers_throw_std (client c)"
  shows "fst (call_receivers hit N c) = None \<and>
    client_ran c (snd (call_receivers hit N c)) \<and>
    receiver_calls (trace (client (snd (call_receivers hit N c)))) =
      receiver_calls (trace (client c)) @
      map (\<lambda>i. Receiver_call (snd i) (extra N) (be_pid N)) hit"
  using assms
proof (induction hit arbitrary: c)
  case Nil
  then show ?case by (simp add: client_ran_refl)
next
  case (Cons i rest)
  define r where "r = receiver_objs (client c) (snd i) (extra N) (be_pid N) (world (client c))"
  define c1 where "c1 = log_event (Receiver_call (snd i) (extra N) (be_pid N))
                 (c\<lparr>client := (client c)\<lparr>world := snd r\<rparr>\<rparr>)"
  have ran1: "client_ran c c1" unfolding c1_def by (rule client_ran_log)
  have calls1: "receiver_calls (trace (client c1)) =
      receiver_calls (trace (client c)) @ [Receiver_call (snd i) (extra N) (be_pid N)]"
    by (simp add: c1_def log_event_def receiver_calls_def)
  have std1: "receivers_throw_std (client c1)"
    using Cons.prems client_ran_fields(6) [OF ran1] by (simp add: receivers_throw_std_def)
  have no_foreign: "fst r \<noteq> Some Foreign_exception"
    using Cons.prems by (simp add: r_def receivers_throw_std_def)
  show ?case
  proof (cases "fst r")
    case None
    have step: "call_receivers (i # rest) N c = call_receivers rest N c1"
      using None by (simp add: Let_def r_def [symmetric] c1_def [symmetric])
    from Cons.IH [OF std1] ran1 calls1 show ?thesis
      unfolding step by (auto intro: client_ran_trans)
  next
    case (Some x)
    with no_foreign obtain e where x: "x = Std_exception e" by (cases x) auto
    define c2 where "c2 = report_receiver_exception (fst i) e c1"
    have ran2: "client_ran c c2"
      unfolding c2_def using ran1 report_ran client_ran_trans by blast
    have calls2: "receiver_calls (trace (client c2)) =
        receiver_calls (trace (client c)) @ [Receiver_call (snd i) (extra N) (be_pid N)]"
      unfolding c2_def by (simp add: report_receiver_calls calls1)
    have std2: "receivers_throw_std (client c2)"
      using Cons.prems client_ran_fields(6) [OF ran2] by (simp add: receivers_throw_std_def)
    have step: "call_receivers (i # rest) N c = call_receivers rest N c2"
      using Some x by (simp add: Let_def r_def [symmetric] c1_def [symmetric] c2_def)
    from Cons.IH [OF std2] ran2 calls2 show ?thesis
      unfolding step by (auto intro: client_ran_trans)
  qed
qed

lemma call_handler_ran:
  "client_ran c (snd (call_handler N c)) \<and>
   receiver_calls (trace (client (snd (call_handler N c)))) = receiver_calls (trace (client c))"
  by (simp add: call_handler_def Let_def client_ran_def
      log_event_def receiver_calls_def split: option.splits)

lemma call_handler_quiet:
  assumes "handlers_never_throw c"
  shows "fst (call_handler N c) = None"
proof (cases "map_of (m_notification_handlers c) (relname N)")
  case None
  then show ?thesis by (simp add: call_handler_def)
next
  case (Some h)
  then have "(relname N, h) \<in> set (m_notification_handlers c)" by (rule map_of_SomeD)
  with assms have "fst (h n w) = None" for n w
    unfolding handlers_never_throw_def by fastforce
  with Some show ?thesis by (simp add: call_handler_def Let_def)
qed

lemma deliver_receivers:
  assumes "receivers_throw_std (client c)"
  shows "client_ran c (snd (deliver N c))"
    and "receiver_calls (trace (client (snd (deliver N c)))) =
      receiver_calls (trace (client c)) @ expected_calls c N"
    and "fst (deliver N c) =
      fst (call_handler N (snd (call_receivers (equal_range (relname N) (m_receivers c)) N c)))"
proof -
  define c1 where "c1 = snd (call_receivers (equal_range (relname N) (m_receivers c)) N c)"
  from call_receivers_all [OF assms, of "equal_range (relname N) (m_receivers c)" N]
  have r: "call_receivers (equal_range (relname N) (m_receivers c)) N c = (None, c1)"
    and ran: "client_ran c c1"
    and calls: "receiver_calls (trace (client c1)) =
      receiver_calls (trace (client c)) @ expected_calls c N"
    by (simp_all add: c1_def expected_calls_def prod_eq_iff)
  have d: "deliver N c = call_handler N c1" by (simp add: deliver_def r)
  show "client_ran c (snd (deliver N c))"
    unfolding d using ran call_handler_ran [of c1 N] client_ran_trans by blast
  show "receiver_calls (trace (client (snd (deliver N c)))) =
      receiver_calls (trace (client c)) @ expected_calls c N"
    unfolding d using calls call_handler_ran [of c1 N] by simp
  show "fst (deliver N c) =
      fst (call_handler N (snd (call_receivers (equal_range (relname N) (m_receivers c)) N c)))"
    unfolding d c1_def ..
qed

lemma notif_loop_all:
  assumes "m_conn c = Some pg" "notify_queue pg = q"
    "receivers_throw_std (client c)" "handlers_never_throw c"
  shows "fst (notif_loop n c) = Inr (n + int (length q)) \<and>
    m_conn (snd (notif_loop n c)) = Some (pg\<lparr>notify_queue := []\<rparr>) \<and>
    m_trans (snd (notif_loop n c)) = m_trans c \<and>
    receiver_calls (trace (client (snd (notif_loop n c)))) =
      receiver_calls (trace (client c)) @ concat (map (expected_calls c) q)"
  using assms
proof (induction q arbitrary: c pg n)
  case Nil
  then have "get_notif c = (None, c)" by (simp add: get_notif_def)
  then have "notif_loop n c = (Inr n, c)" by (subst notif_loop.simps) simp
  moreover have "pg\<lparr>notify_queue := []\<rparr> = pg" using Nil.prems(2) by (cases pg) simp
  ultimately show ?case using Nil.prems(1) by simp
next
  case (Cons N rest)
  define pg1 where "pg1 = pg\<lparr>notify_queue := rest\<rparr>"
  define c1 where "c1 = c\<lparr>m_conn := Some pg1\<rparr>"
  define c2 where "c2 = snd (deliver N c1)"
  have pop: "get_notif c = (Some N, c1)"
    using Cons.prems(1,2) by (simp add: get_notif_def c1_def pg1_def)
  have std1: "receivers_throw_std (client c1)"
    using Cons.prems(3) by (simp add: c1_def)
  have ran: "client_ran c1 c2"
    unfolding c2_def by (rule deliver_receivers(1) [OF std1])
  have calls: "receiver_calls (trace (client c2)) =
      receiver_calls (trace (client c)) @ expected_calls c N"
    using deliver_receivers(2) [OF std1, of N]
    by (simp add: c2_def c1_def expected_calls_def)
  define cr where "cr = snd (call_receivers (equal_range (relname N) (m_receivers c1)) N c1)"
  have "client_ran c1 cr"
    unfolding cr_def using call_receivers_all [OF std1] by blast
  then have "handlers_never_throw cr"
    using Cons.prems(4) by (simp add: handlers_never_throw_def client_ran_def c1_def)
  then have "fst (deliver N c1) = None"
    using deliver_receivers(3) [OF std1, of N] call_handler_quiet [of cr N]
    by (simp add: cr_def)
  then have del: "deliver N c1 = (None, c2)" by (simp add: c2_def prod_eq_iff)
  have step: "notif_loop n c = notif_loop (n + 1) c2"
    by (subst notif_loop.simps) (simp add: pop del)
  have conn2: "m_conn c2 = Some pg1" using ran by (simp add: client_ran_def c1_def)
  have queue2: "notify_queue pg1 = rest" by (simp add: pg1_def)
  have std2: "receivers_throw_std (client c2)"
    using std1 ran by (simp add: receivers_throw_std_def client_ran_def)
  have quiet2: "handlers_never_throw c2"
    using Cons.prems(4) ran by (simp add: handlers_never_throw_def client_ran_def c1_def)
  have same: "expected_calls c2 = expected_calls c"
    using ran by (simp add: expected_calls_def client_ran_def c1_def fun_eq_iff)
  have trans2: "m_trans c2 = m_trans c" using ran by (simp add: client_ran_def c1_def)
  from Cons.IH [OF conn2 queue2 std2 quiet2, of "n + 1"] show ?case
    unfolding step by (simp add: calls same trans2 pg1_def)
qed

lemma get_notifs_all:
  assumes "m_trans c = None" "m_conn c = Some pg" "consume_input_ok pg"
    "receivers_throw_std (client c)" "handlers_never_throw c"
  shows "fst (get_notifs c) = Inr (int (length (notify_queue pg @ socket_input pg))) \<and>
    receiver_calls (trace (client (snd (get_notifs c)))) =
      receiver_calls (trace (client c)) @
      concat (map (expected_calls c) (notify_queue pg @ socket_input pg))"
proof -
  define pg1 where
    "pg1 = pg\<lparr>notify_queue := notify_queue pg @ socket_input pg, socket_input := []\<rparr>"
  define c1 where "c1 = c\<lparr>m_conn := Some pg1\<rparr>"
  have ci: "consume_input c = (True, c1)"
    using assms(2,3) by (simp add: consume_input_def c1_def pg1_def)
  have run: "get_notifs c = notif_loop 0 c1"
    using assms(1) by (simp add: get_notifs_def ci c1_def)
  have same: "expected_calls c1 = expected_calls c"
    by (simp add: expected_calls_def c1_def fun_eq_iff)
  have "fst (notif_loop 0 c1) = Inr (0 + int (length (notify_queue pg @ socket_input pg))) \<and>
    m_conn (snd (notif_loop 0 c1)) = Some (pg1\<lparr>notify_queue := []\<rparr>) \<and>
    m_trans (snd (notif_loop 0 c1)) = m_trans c1 \<and>
    receiver_calls (trace (client (snd (notif_loop 0 c1)))) =
      receiver_calls (trace (client c1)) @
      concat (map (expected_calls c1) (notify_queue pg @ socket_input pg))"
    using assms(4,5)
    by (intro notif_loop_all) (simp_all add: c1_def pg1_def handlers_never_throw_def)
  then show ?thesis unfolding run same by (simp add: c1_def)
qed

lemma get_notifs_deferred:
  assumes "m_trans c \<noteq> None"
  shows "get_notifs c =
    (if fst (consume_input c) then Inr 0
     else Inl (Std_exception (Broken_connection ''Connection lost.'')), snd (consume_input c))"
  using assms
  by (cases "consume_input c")
     (auto simp: get_notifs_def consume_input_def split: option.splits if_splits)

lemma consume_input_keeps:
  "client (snd (consume_input c)) = client c \<and>
   m_trans (snd (consume_input c)) = m_trans c \<and>
   m_receivers (snd (consume_input c)) = m_receivers c \<and>
   m_notification_handlers (snd (consume_input c)) = m_notification_handlers c \<and>
   (\<forall>pg. m_conn c = Some pg \<longrightarrow>
      (\<exists>pg'. m_conn (snd (consume_input c)) = Some pg' \<and>
             consume_input_ok pg' = consume_input_ok pg \<and>
             notify_queue pg' @ socket_input pg' = notify_queue pg @ socket_input pg))"
  by (simp add: consume_input_def split: option.splits)

lemmas watching_defs =
  watching_connection_def updates_notification_def idle_connection_def idle_pgconn_def
  quiet_client_def

lemmas notification_defs =
  get_notifs_def consume_input_def get_notif_def deliver_def call_handler_def
  equal_range_def report_receiver_exception_def process_notice_def process_notice_raw_def
  call_notice_handler_def log_event_def Let_def

lemma call_receivers_ran: "client_ran c (snd (call_receivers hit N c))"
proof (induction hit arbitrary: c)
  case Nil
  show ?case by (simp add: client_ran_refl)
next
  case (Cons i rest)
  define c1 where "c1 = log_event (Receiver_call (snd i) (extra N) (be_pid N))
      (c\<lparr>client := (client c)
           \<lparr>world := snd (receiver_objs (client c) (snd i) (extra N) (be_pid N)
                            (world (client c)))\<rparr>\<rparr>)"
  have ran1: "client_ran c c1" unfolding c1_def by (rule client_ran_log)
  have ran2: "client_ran c (report_receiver_exception (fst i) e c1)" for e
    using ran1 report_ran client_ran_trans by blast
  show ?case
    using Cons.IH [of c1] Cons.IH [of "report_receiver_exception (fst i) e c1" for e]
      ran1 ran2
    by (auto simp: Let_def c1_def [symmetric] split: option.splits thrown.splits
        intro: client_ran_trans)
qed

section \<open>Notification dispatch: exceptions of receivers and of handlers\<close>

text \<open>
  C2, as the code has it, for a notification \<open>N\<close> that the loop of \<open>get_notifs\<close>
  takes. The receivers registered for the channel are called in turn, each with the
  payload and the sender. After a receiver that returns, the loop goes on to the next.
  After a receiver that throws an exception derived from \<open>std::exception\<close>, a notice is
  delivered and the loop goes on to the next: the notice names the channel and carries
  the exception's message; when formatting it runs out of memory the notice is a fixed
  text, and when formatting fails otherwise it is another fixed text. A receiver that
  throws an object of another type ends the calls, and the object leaves the delivery.
  After the receivers the channel's handler, if there is one, is called, and what it
  throws leaves the delivery. What leaves the delivery of a notification leaves the
  loop and \<open>get_notifs\<close>; after a delivery that throws nothing the loop takes the
  next notification and counts one more. So, where receivers throw nothing but
  exceptions derived from \<open>std::exception\<close>, no exception leaves the calls of the
  receivers, and each entry registered for the channel was called exactly once, also
  when other receivers throw; and when moreover no transaction is registered, the
  transport can be read and no handler throws, \<open>get_notifs\<close> returns the number of
  notifications and has made exactly these calls of receivers for all of them, in
  order.
\<close>

theorem get_notifs_contains_receiver_exceptions:
  "(let outcome = (\<lambda>i. receiver_objs (client c) (snd i) (extra N) (be_pid N) (world (client c)));
        called = (\<lambda>i. c\<lparr>client := (client c)
                        \<lparr>world := snd (outcome i),
                         trace := trace (client c) @
                                  [Receiver_call (snd i) (extra N) (be_pid N)]\<rparr>\<rparr>);
        full = (\<lambda>i e. ''Exception in notification receiver '' @ [CHR 0x27] @ fst i @
                      [CHR 0x27] @ '': '' @ what e @ [CHR 0x0A]);
        notice = (\<lambda>i e. case format_throws (client c) (full i e) of
                          None \<Rightarrow> full i e
                        | Some Bad_alloc \<Rightarrow>
                            ''Exception in notification receiver, and also ran out of memory'' @
                            [CHR 0x0A]
                        | Some _ \<Rightarrow>
                            ''Exception in notification receiver (compounded by other error)'' @
                            [CHR 0x0A]);
        hit = equal_range (relname N) (m_receivers c);
        cr = snd (call_receivers hit N c);
        told = \<lparr>channel = relname N, payload = extra N, backend_pid = be_pid N\<rparr>;
        taken = (\<lambda>pg rest. c\<lparr>m_conn := Some (pg\<lparr>notify_queue := rest\<rparr>)\<rparr>);
        read = (\<lambda>pg. c\<lparr>m_conn := Some (pg\<lparr>notify_queue := notify_queue pg @ socket_input pg,
                                            socket_input := []\<rparr>)\<rparr>)
    in (\<forall>i rest. fst (outcome i) = None \<longrightarrow>
          call_receivers (i # rest) N c = call_receivers rest N (called i)) \<and>
       (\<forall>i rest e. fst (outcome i) = Some (Std_exception e) \<longrightarrow>
          call_receivers (i # rest) N c =
            call_receivers rest N (process_notice (notice i e) (called i))) \<and>
       (\<forall>i rest. fst (outcome i) = Some Foreign_exception \<longrightarrow>
          call_receivers (i # rest) N c = (Some Foreign_exception, called i)) \<and>
       (\<forall>x. fst (call_receivers hit N c) = Some x \<longrightarrow> deliver N c = (Some x, cr)) \<and>
       (fst (call_receivers hit N c) = None \<and>
        map_of (m_notification_handlers c) (relname N) = None \<longrightarrow>
          deliver N c = (None, cr)) \<and>
       (\<forall>h. fst (call_receivers hit N c) = None \<and>
            map_of (m_notification_handlers c) (relname N) = Some h \<longrightarrow>
          deliver N c =
            (fst (h told (world (client cr))),
             cr\<lparr>client := (client cr)
                  \<lparr>world := snd (h told (world (client cr))),
                   trace := trace (client cr) @
                            [Handler_call (relname N) (extra N) (be_pid N)]\<rparr>\<rparr>)) \<and>
       (\<forall>pg rest n x. m_conn c = Some pg \<and> notify_queue pg = N # rest \<and>
            fst (deliver N (taken pg rest)) = Some x \<longrightarrow>
          notif_loop n c = (Inl x, snd (deliver N (taken pg rest)))) \<and>
       (\<forall>pg rest n. m_conn c = Some pg \<and> notify_queue pg = N # rest \<and>
            fst (deliver N (taken pg rest)) = None \<longrightarrow>
          notif_loop n c = notif_loop (n + 1) (snd (deliver N (taken pg rest)))) \<and>
       (\<forall>pg n. m_conn c = Some pg \<and> notify_queue pg = [] \<longrightarrow> notif_loop n c = (Inr n, c)) \<and>
       (\<forall>pg. m_trans c = None \<and> m_conn c = Some pg \<and> consume_input_ok pg \<longrightarrow>
          get_notifs c = notif_loop 0 (read pg)) \<and>
       (\<forall>pg rest x. m_trans c = None \<and> m_conn c = Some pg \<and> consume_input_ok pg \<and>
            notify_queue pg @ socket_input pg = N # rest \<and>
            fst (deliver N (taken (pg\<lparr>socket_input := []\<rparr>) rest)) = Some x \<longrightarrow>
          fst (get_notifs c) = Inl x) \<and>
       (receivers_throw_std (client c) \<longrightarrow>
          fst (call_receivers hit N c) = None \<and>
          receiver_calls (trace (client (snd (deliver N c)))) =
            receiver_calls (trace (client c)) @ expected_calls c N) \<and>
       (\<forall>pg. receivers_throw_std (client c) \<and> m_trans c = None \<and> m_conn c = Some pg \<and>
            consume_input_ok pg \<and> handlers_never_throw c \<longrightarrow>
          fst (get_notifs c) = Inr (int (length (notify_queue pg @ socket_input pg))) \<and>
          receiver_calls (trace (client (snd (get_notifs c)))) =
            receiver_calls (trace (client c)) @
            concat (map (expected_calls c) (notify_queue pg @ socket_input pg))))"
proof -
  define outcome where
    "outcome = (\<lambda>i :: string \<times> nat. receiver_objs (client c) (snd i) (extra N) (be_pid N) (world (client c)))"
  define called where
    "called = (\<lambda>i :: string \<times> nat. c\<lparr>client := (client c)
                      \<lparr>world := snd (outcome i),
                       trace := trace (client c) @
                                [Receiver_call (snd i) (extra N) (be_pid N)]\<rparr>\<rparr>)"
  define full where
    "full = (\<lambda>(i :: string \<times> nat) e. ''Exception in notification receiver '' @ [CHR 0x27] @ fst i @
                    [CHR 0x27] @ '': '' @ what e @ [CHR 0x0A])"
  define notice where
    "notice = (\<lambda>(i :: string \<times> nat) e. case format_throws (client c) (full i e) of
                        None \<Rightarrow> full i e
                      | Some Bad_alloc \<Rightarrow>
                          ''Exception in notification receiver, and also ran out of memory'' @
                          [CHR 0x0A]
                      | Some _ \<Rightarrow>
                          ''Exception in notification receiver (compounded by other error)'' @
                          [CHR 0x0A])"
  define hit where "hit = equal_range (relname N) (m_receivers c)"
  define cr where "cr = snd (call_receivers hit N c)"
  define told where "told = \<lparr>channel = relname N, payload = extra N, backend_pid = be_pid N\<rparr>"
  define taken where "taken = (\<lambda>pg rest. c\<lparr>m_conn := Some (pg\<lparr>notify_queue := rest\<rparr>)\<rparr>)"
  define read where
    "read = (\<lambda>pg. c\<lparr>m_conn := Some (pg\<lparr>notify_queue := notify_queue pg @ socket_input pg,
                                        socket_input := []\<rparr>)\<rparr>)"
  have reported: "report_receiver_exception (fst i) e (called i) =
      process_notice (notice i e) (called i)" for i e
    by (simp add: report_receiver_exception_def Let_def notice_def full_def called_def
        split: option.splits error.splits)
  have step: "call_receivers (i # rest) N c =
      (case fst (outcome i) of
         None \<Rightarrow> call_receivers rest N (called i)
       | Some (Std_exception e) \<Rightarrow>
           call_receivers rest N (process_notice (notice i e) (called i))
       | Some Foreign_exception \<Rightarrow> (Some Foreign_exception, called i))" for i rest
    unfolding reported [symmetric]
    by (simp add: Let_def outcome_def called_def log_event_def
        split: option.splits thrown.splits)
  have returns: "\<forall>i rest. fst (outcome i) = None \<longrightarrow>
      call_receivers (i # rest) N c = call_receivers rest N (called i)"
    by (intro allI impI) (simp only: step option.case)
  have caught: "\<forall>i rest e. fst (outcome i) = Some (Std_exception e) \<longrightarrow>
      call_receivers (i # rest) N c =
        call_receivers rest N (process_notice (notice i e) (called i))"
    by (intro allI impI) (simp only: step option.case thrown.case)
  have foreign: "\<forall>i rest. fst (outcome i) = Some Foreign_exception \<longrightarrow>
      call_receivers (i # rest) N c = (Some Foreign_exception, called i)"
    by (intro allI impI) (simp only: step option.case thrown.case)
  have whole: "call_receivers hit N c = (fst (call_receivers hit N c), cr)"
    by (simp add: cr_def)
  have thrown: "\<forall>x. fst (call_receivers hit N c) = Some x \<longrightarrow> deliver N c = (Some x, cr)"
    unfolding deliver_def hit_def [symmetric] by (subst whole) simp
  have handlers: "m_notification_handlers cr = m_notification_handlers c"
    using call_receivers_ran [of c hit N] by (simp add: cr_def client_ran_def)
  have no_handler: "fst (call_receivers hit N c) = None \<and>
      map_of (m_notification_handlers c) (relname N) = None \<longrightarrow> deliver N c = (None, cr)"
    unfolding deliver_def hit_def [symmetric]
    by (subst whole) (simp add: call_handler_def handlers)
  have handler: "\<forall>h. fst (call_receivers hit N c) = None \<and>
        map_of (m_notification_handlers c) (relname N) = Some h \<longrightarrow>
      deliver N c =
        (fst (h told (world (client cr))),
         cr\<lparr>client := (client cr)
              \<lparr>world := snd (h told (world (client cr))),
               trace := trace (client cr) @
                        [Handler_call (relname N) (extra N) (be_pid N)]\<rparr>\<rparr>)"
    unfolding deliver_def hit_def [symmetric]
    by (subst whole) (simp add: call_handler_def handlers Let_def log_event_def told_def)
  have pop: "get_notif c = (Some N, taken pg rest)"
    if "m_conn c = Some pg" "notify_queue pg = N # rest" for pg rest
    using that by (simp add: get_notif_def taken_def)
  have loop_throws: "\<forall>pg rest n x. m_conn c = Some pg \<and> notify_queue pg = N # rest \<and>
        fst (deliver N (taken pg rest)) = Some x \<longrightarrow>
      notif_loop n c = (Inl x, snd (deliver N (taken pg rest)))"
  proof (intro allI impI)
    fix pg rest n x
    assume a: "m_conn c = Some pg \<and> notify_queue pg = N # rest \<and>
        fst (deliver N (taken pg rest)) = Some x"
    then obtain c2 where d: "deliver N (taken pg rest) = (Some x, c2)"
      by (cases "deliver N (taken pg rest)") auto
    show "notif_loop n c = (Inl x, snd (deliver N (taken pg rest)))"
      using pop [of pg rest] a by (subst notif_loop.simps) (simp add: d)
  qed
  have loop_goes_on: "\<forall>pg rest n. m_conn c = Some pg \<and> notify_queue pg = N # rest \<and>
        fst (deliver N (taken pg rest)) = None \<longrightarrow>
      notif_loop n c = notif_loop (n + 1) (snd (deliver N (taken pg rest)))"
  proof (intro allI impI)
    fix pg rest n
    assume a: "m_conn c = Some pg \<and> notify_queue pg = N # rest \<and>
        fst (deliver N (taken pg rest)) = None"
    then obtain c2 where d: "deliver N (taken pg rest) = (None, c2)"
      by (cases "deliver N (taken pg rest)") auto
    show "notif_loop n c = notif_loop (n + 1) (snd (deliver N (taken pg rest)))"
      using pop [of pg rest] a by (subst notif_loop.simps) (simp add: d)
  qed
  have loop_ends: "\<forall>pg n. m_conn c = Some pg \<and> notify_queue pg = [] \<longrightarrow>
      notif_loop n c = (Inr n, c)"
    by (subst notif_loop.simps) (simp add: get_notif_def)
  have starts: "\<forall>pg. m_trans c = None \<and> m_conn c = Some pg \<and> consume_input_ok pg \<longrightarrow>
      get_notifs c = notif_loop 0 (read pg)"
    by (simp add: get_notifs_def consume_input_def read_def)
  have leaves: "\<forall>pg rest x. m_trans c = None \<and> m_conn c = Some pg \<and> consume_input_ok pg \<and>
        notify_queue pg @ socket_input pg = N # rest \<and>
        fst (deliver N (taken (pg\<lparr>socket_input := []\<rparr>) rest)) = Some x \<longrightarrow>
      fst (get_notifs c) = Inl x"
  proof (intro allI impI)
    fix pg rest x
    assume a: "m_trans c = None \<and> m_conn c = Some pg \<and> consume_input_ok pg \<and>
        notify_queue pg @ socket_input pg = N # rest \<and>
        fst (deliver N (taken (pg\<lparr>socket_input := []\<rparr>) rest)) = Some x"
    define pg1 where
      "pg1 = pg\<lparr>notify_queue := notify_queue pg @ socket_input pg, socket_input := []\<rparr>"
    have run: "get_notifs c = notif_loop 0 (read pg)" using a starts by blast
    have next_one: "get_notif (read pg) = (Some N, taken (pg\<lparr>socket_input := []\<rparr>) rest)"
      using a by (simp add: get_notif_def read_def taken_def)
    obtain c2 where d: "deliver N (taken (pg\<lparr>socket_input := []\<rparr>) rest) = (Some x, c2)"
      using a by (cases "deliver N (taken (pg\<lparr>socket_input := []\<rparr>) rest)") auto
    have "notif_loop 0 (read pg) = (Inl x, c2)"
      using next_one by (subst notif_loop.simps) (simp add: d)
    then show "fst (get_notifs c) = Inl x" by (simp add: run)
  qed
  have std_only: "receivers_throw_std (client c) \<longrightarrow>
      fst (call_receivers hit N c) = None \<and>
      receiver_calls (trace (client (snd (deliver N c)))) =
        receiver_calls (trace (client c)) @ expected_calls c N"
    using call_receivers_all [of c hit N] deliver_receivers(2) [of c N] by blast
  have all_of_them: "\<forall>pg. receivers_throw_std (client c) \<and> m_trans c = None \<and>
        m_conn c = Some pg \<and> consume_input_ok pg \<and> handlers_never_throw c \<longrightarrow>
      fst (get_notifs c) = Inr (int (length (notify_queue pg @ socket_input pg))) \<and>
      receiver_calls (trace (client (snd (get_notifs c)))) =
        receiver_calls (trace (client c)) @
        concat (map (expected_calls c) (notify_queue pg @ socket_input pg))"
    using get_notifs_all [of c] by blast
  from returns caught foreign thrown no_handler handler loop_throws loop_goes_on loop_ends
    starts leaves std_only all_of_them
  show ?thesis
    unfolding Let_def outcome_def called_def full_def notice_def hit_def cr_def told_def
      taken_def read_def
    by (intro conjI)
qed

text \<open>
  The notification \<open>42\<close> on \<open>updates\<close>, with receiver 1 throwing: both receivers of
  the channel are called with \<open>42\<close>, the exception of receiver 1 goes out as a notice
  that names the channel and carries the message, the handler is called, and
  \<open>get_notifs\<close> returns 1. When formatting runs out of memory, or fails otherwise,
  the notice is the one or the other fixed text. With a notification on another channel
  buffered before it and a handler that throws, the first notification is delivered, the
  second one reaches the receivers and the handler, and the handler's exception leaves
  \<open>get_notifs\<close>. With receiver 1 throwing an object of another type, receiver 2 and
  the handler are not called, and the object leaves \<open>get_notifs\<close>.
\<close>

theorem get_notifs_contains_receiver_exceptions_witness:
  "(receivers_throw_std (client watching_connection) \<and>
    m_trans watching_connection = None \<and>
    m_conn watching_connection = Some (idle_pgconn\<lparr>notify_queue := [updates_notification]\<rparr>) \<and>
    consume_input_ok (idle_pgconn\<lparr>notify_queue := [updates_notification]\<rparr>) \<and>
    handlers_never_throw watching_connection \<and>
    fst (get_notifs watching_connection) = Inr 1 \<and>
    receiver_calls (trace (client (snd (get_notifs watching_connection)))) =
      [Receiver_call 1 ''42'' 77, Receiver_call 2 ''42'' 77] \<and>
    trace (client (snd (get_notifs watching_connection))) =
      [Receiver_call 1 ''42'' 77,
       Notice_handler_call
         (''Exception in notification receiver '' @ [CHR 0x27] @ ''updates'' @ [CHR 0x27] @
          '': boom'' @ [CHR 0x0A]),
       Receiver_call 2 ''42'' 77, Handler_call ''updates'' ''42'' 77]) \<and>
   trace (client (snd (get_notifs
      (watching_connection
         \<lparr>client := (client watching_connection)\<lparr>format_throws := (\<lambda>s. Some Bad_alloc)\<rparr>\<rparr>)))) =
     [Receiver_call 1 ''42'' 77,
      Notice_handler_call
        (''Exception in notification receiver, and also ran out of memory'' @ [CHR 0x0A]),
      Receiver_call 2 ''42'' 77, Handler_call ''updates'' ''42'' 77] \<and>
   trace (client (snd (get_notifs
      (watching_connection
         \<lparr>client := (client watching_connection)
            \<lparr>format_throws := (\<lambda>s. Some (Failure ''bad format''))\<rparr>\<rparr>)))) =
     [Receiver_call 1 ''42'' 77,
      Notice_handler_call
        (''Exception in notification receiver (compounded by other error)'' @ [CHR 0x0A]),
      Receiver_call 2 ''42'' 77, Handler_call ''updates'' ''42'' 77] \<and>
   (fst (get_notifs
      (watching_connection
         \<lparr>m_conn := Some (idle_pgconn
            \<lparr>notify_queue := [\<lparr>relname = ''other'', be_pid = 78, extra = ''7''\<rparr>,
                              updates_notification]\<rparr>),
          m_notification_handlers :=
            [(''updates'', \<lambda>n w. (Some (Std_exception (Failure ''handler failed'')), w))]\<rparr>)) =
      Inl (Std_exception (Failure ''handler failed'')) \<and>
    receiver_calls (trace (client (snd (get_notifs
      (watching_connection
         \<lparr>m_conn := Some (idle_pgconn
            \<lparr>notify_queue := [\<lparr>relname = ''other'', be_pid = 78, extra = ''7''\<rparr>,
                              updates_notification]\<rparr>),
          m_notification_handlers :=
            [(''updates'', \<lambda>n w. (Some (Std_exception (Failure ''handler failed'')), w))]\<rparr>))))) =
      [Receiver_call 3 ''7'' 78, Receiver_call 1 ''42'' 77, Receiver_call 2 ''42'' 77]) \<and>
   (fst (get_notifs
      (watching_connection
         \<lparr>client := (client watching_connection)
            \<lparr>receiver_objs :=
               (\<lambda>r p pid w. (if r = 1 then Some Foreign_exception else None, w))\<rparr>\<rparr>)) =
      Inl Foreign_exception \<and>
    trace (client (snd (get_notifs
      (watching_connection
         \<lparr>client := (client watching_connection)
            \<lparr>receiver_objs :=
               (\<lambda>r p pid w. (if r = 1 then Some Foreign_exception else None, w))\<rparr>\<rparr>)))) =
      [Receiver_call 1 ''42'' 77])"
  using get_notifs_contains_receiver_exceptions [of watching_connection updates_notification]
  by (simp add: watching_defs notification_defs notif_loop.simps receivers_throw_std_def
      handlers_never_throw_def receiver_calls_def expected_calls_def)

text \<open>
  C2 as the claim states it fails: a handler installed for the channel throws, and the
  exception leaves \<open>get_notifs\<close>; and a receiver throws an object that is not derived
  from \<open>std::exception\<close>, and it leaves \<open>get_notifs\<close> too.
\<close>

theorem get_notifs_handler_counterexample:
  "fst (get_notifs (watching_connection
      \<lparr>m_notification_handlers :=
         [(''updates'', \<lambda>n w. (Some (Std_exception (Failure ''handler failed'')), w))]\<rparr>)) =
     Inl (Std_exception (Failure ''handler failed'')) \<and>
   fst (get_notifs (watching_connection
      \<lparr>client := quiet_client\<lparr>receiver_objs := (\<lambda>r p pid w. (Some Foreign_exception, w))\<rparr>\<rparr>)) =
     Inl Foreign_exception"
  by (simp add: watching_defs notification_defs notif_loop.simps)

section \<open>Notification dispatch while a transaction is registered\<close>

text \<open>
  C6, as the code has it: while a transaction is registered, \<open>get_notifs\<close> returns 0
  when the transport can be read, and throws \<open>broken_connection\<close> when it cannot. In
  both cases no receiver and no handler is called (the client's state and the trace are
  as before), and every notification, buffered or arriving, is still with the
  transport, in order. A later call without a transaction, on a readable transport and
  with callbacks that do not throw past the loop, processes them all.
\<close>

theorem get_notifs_in_transaction:
  assumes "m_trans c \<noteq> None"
  shows
    "(fst (consume_input c) \<longrightarrow> fst (get_notifs c) = Inr 0) \<and>
     (\<not> fst (consume_input c) \<longrightarrow>
        fst (get_notifs c) = Inl (Std_exception (Broken_connection ''Connection lost.''))) \<and>
     client (snd (get_notifs c)) = client c \<and>
     (\<forall>pg. m_conn c = Some pg \<longrightarrow>
        (\<exists>pg'. m_conn (snd (get_notifs c)) = Some pg' \<and>
               notify_queue pg' @ socket_input pg' = notify_queue pg @ socket_input pg)) \<and>
     (\<forall>pg. m_conn c = Some pg \<and> consume_input_ok pg \<and> receivers_throw_std (client c) \<and>
           handlers_never_throw c \<longrightarrow>
        fst (get_notifs ((snd (get_notifs c))\<lparr>m_trans := None\<rparr>)) =
          Inr (int (length (notify_queue pg @ socket_input pg))))"
proof -
  define c1 where "c1 = snd (consume_input c)"
  have run: "get_notifs c =
      (if fst (consume_input c) then Inr 0
       else Inl (Std_exception (Broken_connection ''Connection lost.'')), c1)"
    unfolding c1_def by (rule get_notifs_deferred [OF assms])
  have keeps: "client c1 = client c"
    "m_notification_handlers c1 = m_notification_handlers c"
    "\<forall>pg. m_conn c = Some pg \<longrightarrow>
      (\<exists>pg'. m_conn c1 = Some pg' \<and> consume_input_ok pg' = consume_input_ok pg \<and>
             notify_queue pg' @ socket_input pg' = notify_queue pg @ socket_input pg)"
    using consume_input_keeps [of c] by (simp_all add: c1_def)
  have later: "fst (get_notifs (c1\<lparr>m_trans := None\<rparr>)) =
      Inr (int (length (notify_queue pg @ socket_input pg)))"
    if pg: "m_conn c = Some pg" "consume_input_ok pg" "receivers_throw_std (client c)"
      "handlers_never_throw c" for pg
  proof -
    from keeps(3) pg(1,2) obtain pg' where pg':
      "m_conn c1 = Some pg'" "consume_input_ok pg'"
      "notify_queue pg' @ socket_input pg' = notify_queue pg @ socket_input pg"
      by auto
    have "fst (get_notifs (c1\<lparr>m_trans := None\<rparr>)) =
        Inr (int (length (notify_queue pg' @ socket_input pg')))"
      using get_notifs_all [of "c1\<lparr>m_trans := None\<rparr>" pg'] pg' pg(3,4) keeps(1,2)
      by (simp add: handlers_never_throw_def)
    then show ?thesis by (simp only: pg'(3))
  qed
  have kept: "\<forall>pg. m_conn c = Some pg \<longrightarrow>
      (\<exists>pg'. m_conn c1 = Some pg' \<and>
             notify_queue pg' @ socket_input pg' = notify_queue pg @ socket_input pg)"
    using keeps(3) by blast
  have again: "\<forall>pg. m_conn c = Some pg \<and> consume_input_ok pg \<and>
        receivers_throw_std (client c) \<and> handlers_never_throw c \<longrightarrow>
      fst (get_notifs (c1\<lparr>m_trans := None\<rparr>)) =
        Inr (int (length (notify_queue pg @ socket_input pg)))"
    using later by blast
  show ?thesis
    unfolding run using keeps(1) kept again by simp
qed

text \<open>
  With transaction 1 registered and the notification \<open>42\<close> buffered: the call returns
  0 and calls nothing, the notification stays buffered, and the call made after the
  transaction is gone returns 1.
\<close>

theorem get_notifs_in_transaction_witness:
  "m_trans (watching_connection\<lparr>m_trans := Some 1\<rparr>) \<noteq> None \<and>
   fst (consume_input (watching_connection\<lparr>m_trans := Some 1\<rparr>)) \<and>
   fst (get_notifs (watching_connection\<lparr>m_trans := Some 1\<rparr>)) = Inr 0 \<and>
   trace (client (snd (get_notifs (watching_connection\<lparr>m_trans := Some 1\<rparr>)))) = [] \<and>
   map_option notify_queue (m_conn (snd (get_notifs (watching_connection\<lparr>m_trans := Some 1\<rparr>)))) =
     Some [updates_notification] \<and>
   fst (get_notifs ((snd (get_notifs (watching_connection\<lparr>m_trans := Some 1\<rparr>)))\<lparr>m_trans := None\<rparr>)) =
     Inr 1"
  using get_notifs_in_transaction [of "watching_connection\<lparr>m_trans := Some 1\<rparr>"]
  by (simp add: watching_defs notification_defs notif_loop.simps receivers_throw_std_def
      handlers_never_throw_def)

text \<open>
  C6 as the claim states it fails: with a transaction registered and a transport that
  cannot be read, \<open>get_notifs\<close> does not return 0, it throws.
\<close>

theorem get_notifs_in_transaction_counterexample:
  "m_trans (watching_connection
      \<lparr>m_trans := Some 1,
       m_conn := Some (idle_pgconn\<lparr>consume_input_ok := False,
                                   notify_queue := [updates_notification]\<rparr>)\<rparr>) \<noteq> None \<and>
   fst (get_notifs (watching_connection
      \<lparr>m_trans := Some 1,
       m_conn := Some (idle_pgconn\<lparr>consume_input_ok := False,
                                   notify_queue := [updates_notification]\<rparr>)\<rparr>)) =
     Inl (Std_exception (Broken_connection ''Connection lost.''))"
  by (simp add: watching_defs notification_defs)

section \<open>Listening\<close>

lemmas listen_defs =
  listen_def lower_bound_def exec_on_channel_def quote_name_def exec_def no_rows_def
  PQexec_def make_result_def encoding_id_def PQclientEncoding_def is_open_def err_msg_def

text \<open>
  C4, at the input where the code departs from it. On a connection that watches no
  channel, \<open>listen\<close> installs a handler for channel \<open>b\<close>; then \<open>listen\<close> is
  called for channel \<open>a\<close> with an empty handler. No handler is installed for \<open>a\<close>,
  and still the call sends \<open>UNLISTEN "a"\<close> and removes the entry of channel \<open>b\<close>:
  the position that \<open>lower_bound\<close> gives is compared with the end of the map only,
  not with the name.
\<close>

theorem listen_empty_handler_removes_other_channel:
  "map fst (m_notification_handlers
      (snd (listen ''b'' (Some counting_handler) answering_connection))) = [''b''] \<and>
   fst (listen ''a'' None
      (snd (listen ''b'' (Some counting_handler) answering_connection))) = None \<and>
   m_notification_handlers (snd (listen ''a'' None
      (snd (listen ''b'' (Some counting_handler) answering_connection)))) = [] \<and>
   trace (client (snd (listen ''a'' None
      (snd (listen ''b'' (Some counting_handler) answering_connection))))) =
     [PQexec_call (''LISTEN '' @ [CHR 0x22] @ ''b'' @ [CHR 0x22]),
      PQexec_call (''UNLISTEN '' @ [CHR 0x22] @ ''a'' @ [CHR 0x22])]"
  by (simp add: listen_defs answering_connection_def idle_connection_def idle_pgconn_def
      quiet_client_def notification_defs notif_loop.simps)

end
